theory Spec2Isabelle
  imports Complex_Main
begin

section \<open>The depth tracker of InfiniTAM (ITMDepthTracker.cpp)\<close>

text \<open>
  The development follows \<^verbatim>\<open>ITMLib/Trackers/Interface/ITMDepthTracker.cpp\<close>.
  The C++ type \<^verbatim>\<open>float\<close> is read as \<^typ>\<open>real\<close>: arithmetic is exact; rounding,
  infinities and NaN are not part of the model. The one exception is the loop of
  \<^verbatim>\<open>SetupLevels\<close> that computes the iteration counts: there a \<^verbatim>\<open>float\<close> is converted
  to an \<^verbatim>\<open>int\<close>, the rounding decides which integer is stored, and every operation of
  the model is rounded as binary32 rounds it. Where the code divides by zero (the step
  of \<^verbatim>\<open>SetupLevels\<close> with one level, the ratios of the quality assessment when no depth
  is valid) the quotient of the model is 0. \<^verbatim>\<open>int\<close> is read as \<^typ>\<open>int\<close>; overflow is
  not modelled. Arrays are lists indexed from 0. The concrete inputs of the closed
  theorems are small integers and dyadic fractions, on which \<^verbatim>\<open>float\<close> is exact too.
\<close>

subsection \<open>Matrices\<close>

text \<open>
  Modelled from the spec: \<^verbatim>\<open>Matrix4f\<close> and its \<^verbatim>\<open>operator*\<close> are declared in
  \<^verbatim>\<open>ORUtils\<close>, which is not part of the source file; the spec composes
  \<open>Tinc \<cdot> oldInvPose\<close> as the ordinary product of 4x4 matrices. The field \<open>mXY\<close> holds
  column \<open>X\<close>, row \<open>Y\<close>: this is how \<^verbatim>\<open>ApplyDelta\<close> fills \<open>Tinc\<close>, where
  \<open>m30, m31, m32\<close> take the translation and \<open>m03, m13, m23\<close> the zeros of the bottom row
  of a rigid transform.
\<close>

record Matrix4f =
  m00 :: real  m01 :: real  m02 :: real  m03 :: real
  m10 :: real  m11 :: real  m12 :: real  m13 :: real
  m20 :: real  m21 :: real  m22 :: real  m23 :: real
  m30 :: real  m31 :: real  m32 :: real  m33 :: real

definition mat_mul :: "Matrix4f \<Rightarrow> Matrix4f \<Rightarrow> Matrix4f" where
  "mat_mul lhs rhs = \<lparr>
     m00 = m00 lhs * m00 rhs + m10 lhs * m01 rhs + m20 lhs * m02 rhs + m30 lhs * m03 rhs,
     m01 = m01 lhs * m00 rhs + m11 lhs * m01 rhs + m21 lhs * m02 rhs + m31 lhs * m03 rhs,
     m02 = m02 lhs * m00 rhs + m12 lhs * m01 rhs + m22 lhs * m02 rhs + m32 lhs * m03 rhs,
     m03 = m03 lhs * m00 rhs + m13 lhs * m01 rhs + m23 lhs * m02 rhs + m33 lhs * m03 rhs,
     m10 = m00 lhs * m10 rhs + m10 lhs * m11 rhs + m20 lhs * m12 rhs + m30 lhs * m13 rhs,
     m11 = m01 lhs * m10 rhs + m11 lhs * m11 rhs + m21 lhs * m12 rhs + m31 lhs * m13 rhs,
     m12 = m02 lhs * m10 rhs + m12 lhs * m11 rhs + m22 lhs * m12 rhs + m32 lhs * m13 rhs,
     m13 = m03 lhs * m10 rhs + m13 lhs * m11 rhs + m23 lhs * m12 rhs + m33 lhs * m13 rhs,
     m20 = m00 lhs * m20 rhs + m10 lhs * m21 rhs + m20 lhs * m22 rhs + m30 lhs * m23 rhs,
     m21 = m01 lhs * m20 rhs + m11 lhs * m21 rhs + m21 lhs * m22 rhs + m31 lhs * m23 rhs,
     m22 = m02 lhs * m20 rhs + m12 lhs * m21 rhs + m22 lhs * m22 rhs + m32 lhs * m23 rhs,
     m23 = m03 lhs * m20 rhs + m13 lhs * m21 rhs + m23 lhs * m22 rhs + m33 lhs * m23 rhs,
     m30 = m00 lhs * m30 rhs + m10 lhs * m31 rhs + m20 lhs * m32 rhs + m30 lhs * m33 rhs,
     m31 = m01 lhs * m30 rhs + m11 lhs * m31 rhs + m21 lhs * m32 rhs + m31 lhs * m33 rhs,
     m32 = m02 lhs * m30 rhs + m12 lhs * m31 rhs + m22 lhs * m32 rhs + m32 lhs * m33 rhs,
     m33 = m03 lhs * m30 rhs + m13 lhs * m31 rhs + m23 lhs * m32 rhs + m33 lhs * m33 rhs \<rparr>"

text \<open>Row \<open>r\<close> of a matrix, read from left to right, and the matrix with four given rows.\<close>

fun mat_row :: "Matrix4f \<Rightarrow> nat \<Rightarrow> real list" where
  "mat_row M 0 = [m00 M, m10 M, m20 M, m30 M]"
| "mat_row M (Suc 0) = [m01 M, m11 M, m21 M, m31 M]"
| "mat_row M (Suc (Suc 0)) = [m02 M, m12 M, m22 M, m32 M]"
| "mat_row M (Suc (Suc (Suc n))) = [m03 M, m13 M, m23 M, m33 M]"

definition mat_of_rows :: "real list \<Rightarrow> real list \<Rightarrow> real list \<Rightarrow> real list \<Rightarrow> Matrix4f" where
  "mat_of_rows r0 r1 r2 r3 = \<lparr>
     m00 = r0 ! 0, m01 = r1 ! 0, m02 = r2 ! 0, m03 = r3 ! 0,
     m10 = r0 ! 1, m11 = r1 ! 1, m12 = r2 ! 1, m13 = r3 ! 1,
     m20 = r0 ! 2, m21 = r1 ! 2, m22 = r2 ! 2, m23 = r3 ! 2,
     m30 = r0 ! 3, m31 = r1 ! 3, m32 = r2 ! 3, m33 = r3 ! 3 \<rparr>"

definition mat_identity :: Matrix4f where
  "mat_identity = mat_of_rows [1, 0, 0, 0] [0, 1, 0, 0] [0, 0, 1, 0] [0, 0, 0, 1]"

text \<open>
  The parts of a rigid transform: the translation column (rows 0 to 2 of column 3), the
  rotation block (rows 0 to 2 of columns 0 to 2, row by row), the bottom row.
\<close>

definition translation_column :: "Matrix4f \<Rightarrow> real list" where
  "translation_column M = [m30 M, m31 M, m32 M]"

definition rotation_block :: "Matrix4f \<Rightarrow> real list list" where
  "rotation_block M = [[m00 M, m10 M, m20 M], [m01 M, m11 M, m21 M], [m02 M, m12 M, m22 M]]"

definition block_apply :: "real list list \<Rightarrow> real list \<Rightarrow> real list" where
  "block_apply R v = map (\<lambda>row. row ! 0 * v ! 0 + row ! 1 * v ! 1 + row ! 2 * v ! 2) R"

subsection \<open>Iteration types\<close>

datatype TrackerIterationType =
  TRACKER_ITERATION_ROTATION
| TRACKER_ITERATION_TRANSLATION
| TRACKER_ITERATION_BOTH
| TRACKER_ITERATION_NONE

subsection \<open>ApplyDelta\<close>

text \<open>
  The \<^verbatim>\<open>switch\<close> of \<^verbatim>\<open>ApplyDelta\<close>: the local array \<open>step\<close> built from \<open>delta\<close>.
  The \<^verbatim>\<open>default\<close> label stands with \<^verbatim>\<open>TRACKER_ITERATION_BOTH\<close>.
\<close>

fun ApplyDelta_step :: "TrackerIterationType \<Rightarrow> real list \<Rightarrow> real list" where
  "ApplyDelta_step TRACKER_ITERATION_ROTATION delta =
     [delta ! 0, delta ! 1, delta ! 2, 0, 0, 0]"
| "ApplyDelta_step TRACKER_ITERATION_TRANSLATION delta =
     [0, 0, 0, delta ! 0, delta ! 1, delta ! 2]"
| "ApplyDelta_step TRACKER_ITERATION_BOTH delta =
     [delta ! 0, delta ! 1, delta ! 2, delta ! 3, delta ! 4, delta ! 5]"
| "ApplyDelta_step TRACKER_ITERATION_NONE delta =
     [delta ! 0, delta ! 1, delta ! 2, delta ! 3, delta ! 4, delta ! 5]"

definition ApplyDelta_Tinc :: "real list \<Rightarrow> Matrix4f" where
  "ApplyDelta_Tinc step = \<lparr>
     m00 = 1,          m01 = - (step ! 2), m02 = step ! 1,     m03 = 0,
     m10 = step ! 2,   m11 = 1,            m12 = - (step ! 0), m13 = 0,
     m20 = - (step ! 1), m21 = step ! 0,   m22 = 1,            m23 = 0,
     m30 = step ! 3,   m31 = step ! 4,     m32 = step ! 5,     m33 = 1 \<rparr>"

definition ApplyDelta :: "TrackerIterationType \<Rightarrow> Matrix4f \<Rightarrow> real list \<Rightarrow> Matrix4f" where
  "ApplyDelta iterationType para_old delta =
     mat_mul (ApplyDelta_Tinc (ApplyDelta_step iterationType delta)) para_old"

text \<open>
  The pose update as the specification words it: the step \<open>[rx, ry, rz, tx, ty, tz]\<close> is
  masked by the iteration type and the incremental transform has the rows
  \<open>(1, -rz, ry, tx)\<close>, \<open>(rz, 1, -rx, ty)\<close>, \<open>(-ry, rx, 1, tz)\<close>, \<open>(0, 0, 0, 1)\<close>.
\<close>

fun spec_mask :: "TrackerIterationType \<Rightarrow> real list \<Rightarrow> real list" where
  "spec_mask TRACKER_ITERATION_ROTATION s = [s ! 0, s ! 1, s ! 2, 0, 0, 0]"
| "spec_mask TRACKER_ITERATION_TRANSLATION s = [0, 0, 0, s ! 3, s ! 4, s ! 5]"
| "spec_mask TRACKER_ITERATION_BOTH s = [s ! 0, s ! 1, s ! 2, s ! 3, s ! 4, s ! 5]"
| "spec_mask TRACKER_ITERATION_NONE s = [s ! 0, s ! 1, s ! 2, s ! 3, s ! 4, s ! 5]"

definition spec_Tinc :: "real list \<Rightarrow> Matrix4f" where
  "spec_Tinc s =
     (let rx = s ! 0; ry = s ! 1; rz = s ! 2; tx = s ! 3; ty = s ! 4; tz = s ! 5
      in mat_of_rows [1, - rz, ry, tx] [rz, 1, - rx, ty] [- ry, rx, 1, tz] [0, 0, 0, 1])"

definition spec_ApplyDelta :: "TrackerIterationType \<Rightarrow> Matrix4f \<Rightarrow> real list \<Rightarrow> Matrix4f" where
  "spec_ApplyDelta iterationType oldInvPose s =
     mat_mul (spec_Tinc (spec_mask iterationType s)) oldInvPose"

subsection \<open>Hierarchies, tracker, tracking state\<close>

text \<open>
  Images are opaque: \<open>'img\<close> stands for \<^verbatim>\<open>ITMFloatImage\<close> (depth), \<open>'pts\<close> for
  \<^verbatim>\<open>ITMFloat4Image\<close> (points and normals), \<open>'pose\<close> for \<^verbatim>\<open>ORUtils::SE3Pose\<close>. A
  \<^verbatim>\<open>Vector4f\<close> is the list of its four components. A hierarchy is the list of its
  levels, \<^verbatim>\<open>noLevels\<close> its length. A pointer to a level of a hierarchy is the index of
  that level.
\<close>

type_synonym Vector4f = "real list"

text \<open>
  Modelled from the spec: the product of a \<^verbatim>\<open>Vector4f\<close> and a \<^verbatim>\<open>float\<close> is declared in
  \<^verbatim>\<open>ORUtils\<close>; the spec halves the intrinsics per level, component by component.
\<close>

definition vec_scale :: "Vector4f \<Rightarrow> real \<Rightarrow> Vector4f" where
  "vec_scale v c = map (\<lambda>a. a * c) v"

record 'img ITMTemplatedHierarchyLevel =
  view_depth :: 'img
  view_intrinsics :: Vector4f
  view_iterationType :: TrackerIterationType

record 'pts ITMSceneHierarchyLevel =
  scene_pointsMap :: 'pts
  scene_normalsMap :: 'pts
  scene_intrinsics :: Vector4f
  scene_iterationType :: TrackerIterationType

record ('img, 'pts) ITMDepthTracker =
  viewHierarchy :: "'img ITMTemplatedHierarchyLevel list"
  sceneHierarchy :: "'pts ITMSceneHierarchyLevel list"
  noIterationsPerLevel :: "int list"
  distThresh :: "real list"
  terminationThreshold :: real
  levelId :: nat
  iterationType :: TrackerIterationType
  sceneHierarchyLevel :: nat
  viewHierarchyLevel :: nat
  scenePose :: Matrix4f

record ('pose, 'pts) ITMTrackingState =
  pose_d :: 'pose
  poseQuality :: real
  pointCloud_locations :: 'pts
  pointCloud_colours :: 'pts
  pose_pointCloud :: 'pose

record 'img ITMView =
  depth :: 'img
  calib_intrinsics_d :: Vector4f

text \<open>
  What the tracker calls and this file does not define: the operations of
  \<^verbatim>\<open>SE3Pose\<close>, of the low-level engine and of \<^verbatim>\<open>ORUtils::Cholesky\<close>, and the pure
  virtual \<^verbatim>\<open>ComputeGandH\<close>, which the CPU and GPU trackers implement. They are parameters
  of the model. \<open>ComputeGandH\<close> reads the tracker object and the pose estimate and returns
  the number of valid points, the error, the gradient and the Hessian.
  \<open>FilterSubsampleWithHoles\<close> takes the output image as it was and the input image.
  \<open>Cholesky_Backsub A n v\<close> is the solution of the system of size \<open>n\<close>,
  \<open>Cholesky_Determinant A n\<close> the determinant.
\<close>

record ('pose, 'img, 'pts) external =
  GetM :: "'pose \<Rightarrow> Matrix4f"
  GetInvM :: "'pose \<Rightarrow> Matrix4f"
  SetInvM :: "Matrix4f \<Rightarrow> 'pose \<Rightarrow> 'pose"
  Coerce :: "'pose \<Rightarrow> 'pose"
  FilterSubsampleWithHoles :: "'img \<Rightarrow> 'img \<Rightarrow> 'img"
  CountValidDepths :: "'img \<Rightarrow> int"
  ComputeGandH :: "('img, 'pts) ITMDepthTracker \<Rightarrow> Matrix4f \<Rightarrow> int \<times> real \<times> real list \<times> real list"
  Cholesky_Backsub :: "real list \<Rightarrow> nat \<Rightarrow> real list \<Rightarrow> real list"
  Cholesky_Determinant :: "real list \<Rightarrow> nat \<Rightarrow> real"

subsection \<open>SetupLevels and the constructor\<close>

text \<open>
  The iteration counts are computed in \<^verbatim>\<open>float\<close> and converted to \<^verbatim>\<open>int\<close>, so the
  rounding of binary32 decides which integer is stored; it is modelled for that loop.
  \<open>float32 x\<close> is the binary32 number nearest to \<open>x\<close>, halfway cases to the even
  significand (IEEE 754, 24 bits of significand, exponents from -126 to 127, subnormals
  with the spacing of the exponent -126). \<open>float_exponent x\<close> is the exponent \<open>e\<close> with
  \<open>2\<^sup>e \<le> |x| < 2\<^sup>e\<^sup>+\<^sup>1\<close>, searched from 127 downwards, and -126 below the normal
  range. Overflow to infinity (from \<open>2\<^sup>1\<^sup>2\<^sup>8\<close> on) is not modelled.
\<close>

definition round_nearest_even :: "real \<Rightarrow> int" where
  "round_nearest_even q =
     (let f = \<lfloor>q\<rfloor>; r = q - of_int f
      in if r < 1 / 2 then f else if r > 1 / 2 then f + 1 else if even f then f else f + 1)"

fun float_exponent_from :: "nat \<Rightarrow> real \<Rightarrow> int" where
  "float_exponent_from 0 x = - 126"
| "float_exponent_from (Suc n) x =
     (if 2 powi (int (Suc n) - 126) \<le> \<bar>x\<bar> then int (Suc n) - 126
      else float_exponent_from n x)"

definition float_exponent :: "real \<Rightarrow> int" where
  "float_exponent x = float_exponent_from 253 x"

definition float32 :: "real \<Rightarrow> real" where
  "float32 x =
     (let ulp = 2 powi (float_exponent x - 23)
      in of_int (round_nearest_even (x / ulp)) * ulp)"

text \<open>\<^verbatim>\<open>round\<close> of \<^verbatim>\<open>math.h\<close>: the nearest integer, halfway cases away from zero.\<close>

definition C_round :: "real \<Rightarrow> int" where
  "C_round v = (if 0 \<le> v then \<lfloor>v + 1 / 2\<rfloor> else \<lceil>v - 1 / 2\<rceil>)"

text \<open>
  The two loops of \<^verbatim>\<open>SetupLevels\<close>, \<^verbatim>\<open>for (levelId = n - 1; levelId >= 0; levelId--)\<close>:
  the first argument is the number of levels still to be written. In the loop of the
  iteration counts \<^verbatim>\<open>val -= step\<close> is the binary32 subtraction.
\<close>

fun SetupLevels_iterations :: "nat \<Rightarrow> real \<Rightarrow> real \<Rightarrow> int list \<Rightarrow> int list" where
  "SetupLevels_iterations 0 val step arr = arr"
| "SetupLevels_iterations (Suc l) val step arr =
     SetupLevels_iterations l (float32 (val - step)) step (arr[l := C_round val])"

fun SetupLevels_thresholds :: "nat \<Rightarrow> real \<Rightarrow> real \<Rightarrow> real list \<Rightarrow> real list" where
  "SetupLevels_thresholds 0 val step arr = arr"
| "SetupLevels_thresholds (Suc l) val step arr =
     SetupLevels_thresholds l (val - step) step (arr[l := val])"

definition SetupLevels ::
  "int \<Rightarrow> int \<Rightarrow> real \<Rightarrow> real \<Rightarrow> ('img, 'pts) ITMDepthTracker \<Rightarrow> ('img, 'pts) ITMDepthTracker" where
  "SetupLevels numIterCoarse numIterFine distThreshCoarse distThreshFine t =
     (let noHierarchyLevels = length (viewHierarchy t);
          t1 = (if numIterCoarse \<noteq> - 1 \<and> numIterFine \<noteq> - 1 then
                  let step = float32 (float32 (real_of_int (numIterCoarse - numIterFine))
                               / float32 (real_of_int (int noHierarchyLevels - 1)));
                      val = float32 (real_of_int numIterCoarse)
                  in t\<lparr>noIterationsPerLevel :=
                         SetupLevels_iterations noHierarchyLevels val step (noIterationsPerLevel t)\<rparr>
                else t)
      in if distThreshCoarse \<ge> 0 \<and> distThreshFine \<ge> 0 then
           let step = (distThreshCoarse - distThreshFine)
                        / real_of_int (int noHierarchyLevels - 1);
               val = distThreshCoarse
           in t1\<lparr>distThresh :=
                   SetupLevels_thresholds noHierarchyLevels val step (distThresh t1)\<rparr>
         else t1)"

text \<open>
  Modelled from the spec: the constructor of \<^verbatim>\<open>ITMImageHierarchy\<close> is not part of the
  source file; it makes one level per entry of the tracking regime, level \<open>i\<close> with the
  iteration type \<open>trackingRegime[i]\<close>. \<open>blank\<close> is the content of a freshly allocated
  image.
\<close>

definition new_viewHierarchy ::
  "TrackerIterationType list \<Rightarrow> nat \<Rightarrow> 'img \<Rightarrow> 'img ITMTemplatedHierarchyLevel list" where
  "new_viewHierarchy trackingRegime noHierarchyLevels blank =
     map (\<lambda>i. \<lparr>view_depth = blank, view_intrinsics = [0, 0, 0, 0],
                view_iterationType = trackingRegime ! i\<rparr>) [0..<noHierarchyLevels]"

definition new_sceneHierarchy ::
  "TrackerIterationType list \<Rightarrow> nat \<Rightarrow> 'pts \<Rightarrow> 'pts ITMSceneHierarchyLevel list" where
  "new_sceneHierarchy trackingRegime noHierarchyLevels blank =
     map (\<lambda>i. \<lparr>scene_pointsMap = blank, scene_normalsMap = blank,
                scene_intrinsics = [0, 0, 0, 0],
                scene_iterationType = trackingRegime ! i\<rparr>) [0..<noHierarchyLevels]"

text \<open>
  The constructor. \<open>raw\<close> is the object before construction (its fields hold whatever
  the memory held), \<open>new_int\<close> and \<open>new_float\<close> are the contents of the two arrays that
  \<^verbatim>\<open>new int[noHierarchyLevels]\<close> and \<^verbatim>\<open>new float[noHierarchyLevels]\<close> return.
\<close>

definition ITMDepthTracker_new ::
  "TrackerIterationType list \<Rightarrow> nat \<Rightarrow> real \<Rightarrow> 'img \<Rightarrow> 'pts \<Rightarrow> int list \<Rightarrow> real list
     \<Rightarrow> ('img, 'pts) ITMDepthTracker \<Rightarrow> ('img, 'pts) ITMDepthTracker" where
  "ITMDepthTracker_new trackingRegime noHierarchyLevels terminationThreshold' blank_img blank_pts
       new_int new_float raw =
     (let t = raw\<lparr>viewHierarchy := new_viewHierarchy trackingRegime noHierarchyLevels blank_img,
                  sceneHierarchy := new_sceneHierarchy trackingRegime noHierarchyLevels blank_pts,
                  noIterationsPerLevel := new_int,
                  distThresh := new_float\<rparr>;
          t = SetupLevels (int noHierarchyLevels * 2) 2 (1 / 100) (2 / 1000) t
      in t\<lparr>terminationThreshold := terminationThreshold'\<rparr>)"

subsection \<open>Preparing the evaluation\<close>

definition SetEvaluationData ::
  "('pose, 'img, 'pts) external \<Rightarrow> ('pose, 'pts) ITMTrackingState \<Rightarrow> 'img ITMView
     \<Rightarrow> ('img, 'pts) ITMDepthTracker \<Rightarrow> ('img, 'pts) ITMDepthTracker" where
  "SetEvaluationData ext trackingState view t =
     (let s0 = (sceneHierarchy t ! 0)\<lparr>scene_intrinsics := calib_intrinsics_d view\<rparr>;
          v0 = (viewHierarchy t ! 0)\<lparr>view_intrinsics := calib_intrinsics_d view\<rparr>;
          v0 = v0\<lparr>view_depth := depth view\<rparr>;
          s0 = s0\<lparr>scene_pointsMap := pointCloud_locations trackingState\<rparr>;
          s0 = s0\<lparr>scene_normalsMap := pointCloud_colours trackingState\<rparr>
      in t\<lparr>viewHierarchy := (viewHierarchy t)[0 := v0],
            sceneHierarchy := (sceneHierarchy t)[0 := s0],
            scenePose := GetM ext (pose_pointCloud trackingState)\<rparr>)"

text \<open>
  The body of the loop of \<^verbatim>\<open>PrepareForEvaluation\<close> at index \<open>i\<close>, and the loop
  \<^verbatim>\<open>for (i = 1; i < noLevels; i++)\<close>. The two calls that would subsample the points and
  the normals of the scene are commented out in the source.
\<close>

definition PrepareForEvaluation_body ::
  "('pose, 'img, 'pts) external \<Rightarrow> nat \<Rightarrow> ('img, 'pts) ITMDepthTracker
     \<Rightarrow> ('img, 'pts) ITMDepthTracker" where
  "PrepareForEvaluation_body ext i t =
     (let currentLevelView = viewHierarchy t ! i;
          previousLevelView = viewHierarchy t ! (i - 1);
          currentLevelView = currentLevelView\<lparr>view_depth :=
             FilterSubsampleWithHoles ext (view_depth currentLevelView) (view_depth previousLevelView)\<rparr>;
          currentLevelView = currentLevelView\<lparr>view_intrinsics :=
             vec_scale (view_intrinsics previousLevelView) (1 / 2)\<rparr>;
          currentLevelScene = sceneHierarchy t ! i;
          previousLevelScene = sceneHierarchy t ! (i - 1);
          currentLevelScene = currentLevelScene\<lparr>scene_intrinsics :=
             vec_scale (scene_intrinsics previousLevelScene) (1 / 2)\<rparr>
      in t\<lparr>viewHierarchy := (viewHierarchy t)[i := currentLevelView],
            sceneHierarchy := (sceneHierarchy t)[i := currentLevelScene]\<rparr>)"

definition PrepareForEvaluation ::
  "('pose, 'img, 'pts) external \<Rightarrow> ('img, 'pts) ITMDepthTracker \<Rightarrow> ('img, 'pts) ITMDepthTracker" where
  "PrepareForEvaluation ext t =
     fold (PrepareForEvaluation_body ext) [1..<length (viewHierarchy t)] t"

definition SetEvaluationParams ::
  "nat \<Rightarrow> ('img, 'pts) ITMDepthTracker \<Rightarrow> ('img, 'pts) ITMDepthTracker" where
  "SetEvaluationParams l t =
     t\<lparr>levelId := l,
       iterationType := view_iterationType (viewHierarchy t ! l),
       sceneHierarchyLevel := 0,
       viewHierarchyLevel := l\<rparr>"

subsection \<open>ComputeDelta and HasConverged\<close>

text \<open>
  \<open>step\<close> is zeroed, then \<^verbatim>\<open>Backsub\<close> writes the first \<open>n\<close> entries of it (3 in a short
  iteration, 6 otherwise).
\<close>

definition ComputeDelta ::
  "('pose, 'img, 'pts) external \<Rightarrow> real list \<Rightarrow> real list \<Rightarrow> bool \<Rightarrow> real list" where
  "ComputeDelta ext nabla hessian shortIteration =
     (let step = replicate 6 0 in
      if shortIteration then
        let smallHessian = map (\<lambda>j. hessian ! (j mod 3 + (j div 3) * 6)) [0..<3 * 3];
            x = Cholesky_Backsub ext smallHessian 3 nabla
        in map (\<lambda>i. if i < 3 then x ! i else step ! i) [0..<6]
      else
        let x = Cholesky_Backsub ext hessian 6 nabla
        in map (\<lambda>i. if i < 6 then x ! i else step ! i) [0..<6])"

definition HasConverged :: "real \<Rightarrow> real list \<Rightarrow> bool" where
  "HasConverged terminationThreshold' step =
     (let stepLength = fold (\<lambda>i stepLength. stepLength + step ! i * step ! i) [0..<6] 0
      in if sqrt stepLength / 6 < terminationThreshold' then True else False)"

subsection \<open>TrackCamera\<close>

text \<open>
  The state of the loops of \<^verbatim>\<open>TrackCamera\<close>: the tracking state it writes to and its
  local variables. \<open>approxInvPose\<close>, \<open>lastKnownGoodPose\<close> and \<open>lambda\<close> are declared in the
  block of one level; each level that is processed sets them before its first iteration
  and nothing reads them outside of that block.
\<close>

record ('pose, 'pts) TrackCamera_locals =
  trackingState :: "('pose, 'pts) ITMTrackingState"
  f_old :: real
  noValidPoints_old :: int
  hessian_good :: "real list"
  nabla_good :: "real list"
  approxInvPose :: Matrix4f
  lastKnownGoodPose :: 'pose
  lambda :: real

text \<open>
  The \<^verbatim>\<open>if\<close> of the inner loop: given what \<^verbatim>\<open>ComputeGandH\<close> returned, revert to the
  last known good pose or accept the evaluation.
\<close>

definition TrackCamera_check ::
  "('pose, 'img, 'pts) external \<Rightarrow> int \<times> real \<times> real list \<times> real list
     \<Rightarrow> ('pose, 'pts) TrackCamera_locals \<Rightarrow> ('pose, 'pts) TrackCamera_locals" where
  "TrackCamera_check ext r s =
     (case r of (noValidPoints_new, f_new, nabla_new, hessian_new) \<Rightarrow>
        if noValidPoints_new \<le> 0 \<or> f_new > f_old s then
          let ts = (trackingState s)\<lparr>pose_d := lastKnownGoodPose s\<rparr>
          in s\<lparr>trackingState := ts,
               approxInvPose := GetInvM ext (pose_d ts),
               lambda := lambda s * 10\<rparr>
        else
          s\<lparr>lastKnownGoodPose := pose_d (trackingState s),
            f_old := f_new,
            noValidPoints_old := noValidPoints_new,
            hessian_good := map (\<lambda>i. hessian_new ! i / real_of_int noValidPoints_new) [0..<6 * 6],
            nabla_good := map (\<lambda>i. nabla_new ! i / real_of_int noValidPoints_new) [0..<6],
            lambda := lambda s / 10\<rparr>)"

text \<open>
  The rest of the body: the damped matrix \<open>A\<close>, the step, the new pose. The step is
  returned for the convergence test.
\<close>

definition TrackCamera_step ::
  "('pose, 'img, 'pts) external \<Rightarrow> ('img, 'pts) ITMDepthTracker
     \<Rightarrow> ('pose, 'pts) TrackCamera_locals \<Rightarrow> real list \<times> ('pose, 'pts) TrackCamera_locals" where
  "TrackCamera_step ext t s =
     (let A = map (\<lambda>i. hessian_good s ! i) [0..<6 * 6];
          A = fold (\<lambda>i A. A[i + i * 6 := A ! (i + i * 6) * (1 + lambda s)]) [0..<6] A;
          step = ComputeDelta ext (nabla_good s) A (iterationType t \<noteq> TRACKER_ITERATION_BOTH);
          approxInvPose' = ApplyDelta (iterationType t) (approxInvPose s) step;
          ts = (trackingState s)\<lparr>pose_d := SetInvM ext approxInvPose' (pose_d (trackingState s))\<rparr>;
          ts = ts\<lparr>pose_d := Coerce ext (pose_d ts)\<rparr>
      in (step, s\<lparr>trackingState := ts, approxInvPose := GetInvM ext (pose_d ts)\<rparr>))"

definition TrackCamera_iteration ::
  "('pose, 'img, 'pts) external \<Rightarrow> ('img, 'pts) ITMDepthTracker
     \<Rightarrow> ('pose, 'pts) TrackCamera_locals \<Rightarrow> real list \<times> ('pose, 'pts) TrackCamera_locals" where
  "TrackCamera_iteration ext t s =
     TrackCamera_step ext t (TrackCamera_check ext (ComputeGandH ext t (approxInvPose s)) s)"

text \<open>
  The inner loop, \<^verbatim>\<open>for (iterNo = 0; iterNo < noIterationsPerLevel[levelId]; iterNo++)\<close>
  with its \<^verbatim>\<open>break\<close>: the first argument is the number of iterations left.
\<close>

fun TrackCamera_iterations ::
  "('pose, 'img, 'pts) external \<Rightarrow> ('img, 'pts) ITMDepthTracker \<Rightarrow> nat
     \<Rightarrow> ('pose, 'pts) TrackCamera_locals \<Rightarrow> ('pose, 'pts) TrackCamera_locals" where
  "TrackCamera_iterations ext t 0 s = s"
| "TrackCamera_iterations ext t (Suc n) s =
     (case TrackCamera_iteration ext t s of (step, s') \<Rightarrow>
        if HasConverged (terminationThreshold t) step then s'
        else TrackCamera_iterations ext t n s')"

text \<open>The body of the loop over the levels, at level \<open>l\<close>.\<close>

definition TrackCamera_level ::
  "('pose, 'img, 'pts) external \<Rightarrow> nat
     \<Rightarrow> ('img, 'pts) ITMDepthTracker \<times> ('pose, 'pts) TrackCamera_locals
     \<Rightarrow> ('img, 'pts) ITMDepthTracker \<times> ('pose, 'pts) TrackCamera_locals" where
  "TrackCamera_level ext l ts =
     (case ts of (t, s) \<Rightarrow>
        let t = SetEvaluationParams l t in
        if iterationType t = TRACKER_ITERATION_NONE then (t, s)
        else
          let s = s\<lparr>approxInvPose := GetInvM ext (pose_d (trackingState s)),
                    lastKnownGoodPose := pose_d (trackingState s),
                    f_old := 10 ^ 20,
                    noValidPoints_old := 0,
                    lambda := 1\<rparr>
          in (t, TrackCamera_iterations ext t (nat (noIterationsPerLevel t ! l)) s))"

text \<open>
  The loop \<^verbatim>\<open>for (levelId = noLevels - 1; levelId >= 0; levelId--)\<close>: the second argument
  is the number of levels still to be visited.
\<close>

fun TrackCamera_levels ::
  "('pose, 'img, 'pts) external \<Rightarrow> nat
     \<Rightarrow> ('img, 'pts) ITMDepthTracker \<times> ('pose, 'pts) TrackCamera_locals
     \<Rightarrow> ('img, 'pts) ITMDepthTracker \<times> ('pose, 'pts) TrackCamera_locals" where
  "TrackCamera_levels ext 0 ts = ts"
| "TrackCamera_levels ext (Suc l) ts = TrackCamera_levels ext l (TrackCamera_level ext l ts)"

text \<open>The quality assessment at the end of \<^verbatim>\<open>TrackCamera\<close>.\<close>

definition TrackCamera_det_norm ::
  "('pose, 'img, 'pts) external \<Rightarrow> TrackerIterationType \<Rightarrow> real list \<Rightarrow> int \<Rightarrow> int \<Rightarrow> real" where
  "TrackCamera_det_norm ext iterationType' hessian_good' noValidPoints_old' noValidPointsMax =
     (if iterationType' = TRACKER_ITERATION_BOTH then
        let hessian_good' = map (\<lambda>i. hessian_good' ! i
                 * (real_of_int noValidPoints_old' / real_of_int noValidPointsMax)) [0..<6 * 6]
        in Cholesky_Determinant ext hessian_good' 6
      else 0)"

definition TrackCamera_finalResidual :: "real \<Rightarrow> int \<Rightarrow> int \<Rightarrow> real \<Rightarrow> real" where
  "TrackCamera_finalResidual f_old' noValidPoints_old' noValidPointsMax distThresh0 =
     sqrt ((real_of_int noValidPoints_old' * f_old'
            + real_of_int (noValidPointsMax - noValidPoints_old') * distThresh0)
           / real_of_int noValidPointsMax)"

definition TrackCamera_percentageInliers :: "int \<Rightarrow> int \<Rightarrow> real" where
  "TrackCamera_percentageInliers noValidPoints_old' noValidPointsMax =
     real_of_int noValidPoints_old' / real_of_int noValidPointsMax"

definition thresholdResidual :: real where "thresholdResidual = 25 / 100"
definition thresholdInliers :: real where "thresholdInliers = 7 / 10"
definition thresholdDet :: real where "thresholdDet = exp (- 36)"

text \<open>The three statements that assign \<^verbatim>\<open>trackingState->poseQuality\<close>, in their order.\<close>

definition TrackCamera_poseQuality :: "real \<Rightarrow> real \<Rightarrow> real \<Rightarrow> real" where
  "TrackCamera_poseQuality finalResidual percentageInliers det_norm =
     (let q = (if finalResidual < thresholdResidual \<and> percentageInliers > thresholdInliers then 1
               else if finalResidual < thresholdResidual \<or> percentageInliers > thresholdInliers
                    then 1 / 2
               else 0);
          q = (if percentageInliers < 3 / 10 then 0 else q);
          q = (if det_norm < thresholdDet then (if q > 1 / 2 then 1 / 2 else q) else q)
      in q)"

definition TrackCamera_assess ::
  "('pose, 'img, 'pts) external \<Rightarrow> 'img ITMView
     \<Rightarrow> ('img, 'pts) ITMDepthTracker \<times> ('pose, 'pts) TrackCamera_locals
     \<Rightarrow> ('pose, 'pts) ITMTrackingState" where
  "TrackCamera_assess ext view ts =
     (case ts of (t, s) \<Rightarrow>
        let noValidPointsMax = CountValidDepths ext (depth view);
            det_norm = TrackCamera_det_norm ext (iterationType t) (hessian_good s)
                         (noValidPoints_old s) noValidPointsMax;
            finalResidual = TrackCamera_finalResidual (f_old s) (noValidPoints_old s)
                              noValidPointsMax (distThresh t ! 0);
            percentageInliers = TrackCamera_percentageInliers (noValidPoints_old s) noValidPointsMax
        in (trackingState s)\<lparr>poseQuality :=
              TrackCamera_poseQuality finalResidual percentageInliers det_norm\<rparr>)"

text \<open>The state in which \<^verbatim>\<open>TrackCamera\<close> enters the loop over the levels.\<close>

definition TrackCamera_init ::
  "('pose, 'img, 'pts) external \<Rightarrow> ('pose, 'pts) ITMTrackingState \<Rightarrow> 'img ITMView
     \<Rightarrow> ('img, 'pts) ITMDepthTracker
     \<Rightarrow> ('img, 'pts) ITMDepthTracker \<times> ('pose, 'pts) TrackCamera_locals" where
  "TrackCamera_init ext trackingState' view t =
     (let t = SetEvaluationData ext trackingState' view t;
          t = PrepareForEvaluation ext t
      in (t, \<lparr>trackingState = trackingState',
              f_old = 10 ^ 10,
              noValidPoints_old = 0,
              hessian_good = replicate (6 * 6) 0,
              nabla_good = replicate 6 0,
              approxInvPose = GetInvM ext (pose_d trackingState'),
              lastKnownGoodPose = pose_d trackingState',
              lambda = 1\<rparr>))"

definition TrackCamera_loops ::
  "('pose, 'img, 'pts) external \<Rightarrow> ('pose, 'pts) ITMTrackingState \<Rightarrow> 'img ITMView
     \<Rightarrow> ('img, 'pts) ITMDepthTracker
     \<Rightarrow> ('img, 'pts) ITMDepthTracker \<times> ('pose, 'pts) TrackCamera_locals" where
  "TrackCamera_loops ext trackingState' view t =
     (let ts = TrackCamera_init ext trackingState' view t
      in TrackCamera_levels ext (length (viewHierarchy (fst ts))) ts)"

definition TrackCamera ::
  "('pose, 'img, 'pts) external \<Rightarrow> ('pose, 'pts) ITMTrackingState \<Rightarrow> 'img ITMView
     \<Rightarrow> ('img, 'pts) ITMDepthTracker
     \<Rightarrow> ('img, 'pts) ITMDepthTracker \<times> ('pose, 'pts) ITMTrackingState" where
  "TrackCamera ext trackingState' view t =
     (let ts = TrackCamera_loops ext trackingState' view t
      in (fst ts, TrackCamera_assess ext view ts))"

subsection \<open>The quality classes of the specification\<close>

datatype TrackingQuality = Good | Uncertain | Poor

fun quality_value :: "TrackingQuality \<Rightarrow> real" where
  "quality_value Good = 1"
| "quality_value Uncertain = 1 / 2"
| "quality_value Poor = 0"

text \<open>
  The classification as the specification words it: Good when both conditions hold,
  Uncertain when exactly one holds, Poor otherwise; an inlier ratio below 0.3 forces
  Poor; a determinant below \<open>e\<^sup>-\<^sup>3\<^sup>6\<close> lowers Good to Uncertain and changes nothing else.
\<close>

definition spec_quality :: "real \<Rightarrow> real \<Rightarrow> real \<Rightarrow> TrackingQuality" where
  "spec_quality finalResidual inlierRatio detNorm =
     (let residualOk = (finalResidual < 25 / 100);
          inliersOk = (inlierRatio > 7 / 10);
          base = (if residualOk \<and> inliersOk then Good
                  else if residualOk \<noteq> inliersOk then Uncertain
                  else Poor);
          floored = (if inlierRatio < 3 / 10 then Poor else base)
      in if detNorm < exp (- 36) \<and> floored = Good then Uncertain else floored)"

text \<open>
  The determinant of the quality assessment as the specification words it: it is
  computed when the iteration type of the last processed level is Both. The loop runs
  from the coarsest level down to level 0 and processes the levels whose type is not
  None, so the last processed level is the lowest level whose type is not None.
\<close>

definition last_processed_iterationType ::
  "TrackerIterationType list \<Rightarrow> TrackerIterationType option" where
  "last_processed_iterationType trackingRegime =
     find (\<lambda>it. it \<noteq> TRACKER_ITERATION_NONE) trackingRegime"

definition spec_detNorm ::
  "('pose, 'img, 'pts) external \<Rightarrow> TrackerIterationType list \<Rightarrow> real list \<Rightarrow> int \<Rightarrow> int \<Rightarrow> real" where
  "spec_detNorm ext trackingRegime hessian acceptedValid globalValid =
     (if last_processed_iterationType trackingRegime = Some TRACKER_ITERATION_BOTH then
        Cholesky_Determinant ext
          (map (\<lambda>h. h * (real_of_int acceptedValid / real_of_int globalValid)) hessian) 6
      else 0)"

subsection \<open>A small instance\<close>

text \<open>
  An instance of the parameters, for evaluating the model on concrete inputs. An image
  is the number of its valid depth samples. A pose is kept as a matrix and only the
  identity pose occurs, which is its own inverse. The evaluation finds one valid point
  with error 0, gradient 0 and the identity as Hessian; the solver and the determinant
  are those of a diagonal matrix.
\<close>

definition example_external :: "(Matrix4f, nat, nat) external" where
  "example_external = \<lparr>
     GetM = (\<lambda>p. p),
     GetInvM = (\<lambda>p. p),
     SetInvM = (\<lambda>M p. M),
     Coerce = (\<lambda>p. p),
     FilterSubsampleWithHoles = (\<lambda>out inp. inp),
     CountValidDepths = (\<lambda>d. int d),
     ComputeGandH = (\<lambda>t M. (1, 0, replicate 6 0, map (\<lambda>i. if i mod 7 = 0 then 1 else 0) [0..<36])),
     Cholesky_Backsub = (\<lambda>A n v. map (\<lambda>i. v ! i / A ! (i + i * n)) [0..<n]),
     Cholesky_Determinant = (\<lambda>A n. prod_list (map (\<lambda>i. A ! (i + i * n)) [0..<n])) \<rparr>"

definition identity_36 :: "real list" where
  "identity_36 = [1, 0, 0, 0, 0, 0,  0, 1, 0, 0, 0, 0,  0, 0, 1, 0, 0, 0,
                  0, 0, 0, 1, 0, 0,  0, 0, 0, 0, 1, 0,  0, 0, 0, 0, 0, 1]"

definition example_raw :: "(nat, nat) ITMDepthTracker" where
  "example_raw = \<lparr>
     viewHierarchy = [], sceneHierarchy = [], noIterationsPerLevel = [], distThresh = [],
     terminationThreshold = 0, levelId = 3, iterationType = TRACKER_ITERATION_ROTATION,
     sceneHierarchyLevel = 3, viewHierarchyLevel = 3, scenePose = mat_identity \<rparr>"

definition example_tracker :: "TrackerIterationType list \<Rightarrow> (nat, nat) ITMDepthTracker" where
  "example_tracker trackingRegime =
     ITMDepthTracker_new trackingRegime (length trackingRegime) (1 / 1000) 0 0
       (replicate (length trackingRegime) 0) (replicate (length trackingRegime) 0) example_raw"

definition example_trackingState :: "(Matrix4f, nat) ITMTrackingState" where
  "example_trackingState = \<lparr>
     pose_d = mat_identity, poseQuality = 0, pointCloud_locations = 7,
     pointCloud_colours = 8, pose_pointCloud = mat_identity \<rparr>"

definition example_view :: "nat ITMView" where
  "example_view = \<lparr> depth = 1, calib_intrinsics_d = [500, 500, 320, 240] \<rparr>"

definition example_locals :: "(Matrix4f, nat) TrackCamera_locals" where
  "example_locals = \<lparr>
     trackingState = example_trackingState, f_old = 10 ^ 20, noValidPoints_old = 0,
     hessian_good = replicate 36 0, nabla_good = replicate 6 0,
     approxInvPose = mat_identity, lastKnownGoodPose = mat_identity, lambda = 1 \<rparr>"

section \<open>Properties\<close>

subsection \<open>Auxiliary facts\<close>

lemma upt_6: "[0..<6] = [0, 1, 2, 3, 4, 5]"
  by (simp add: upt_rec)

lemma sum_lessThan_6:
  fixes f :: "nat \<Rightarrow> real"
  shows "(\<Sum>i<6. f i) = f 0 + f 1 + f 2 + f 3 + f 4 + f 5"
  by (simp add: lessThan_nat_numeral lessThan_Suc add.commute add.left_commute)

lemmas matrix_defs =
  ApplyDelta_def ApplyDelta_Tinc_def mat_mul_def mat_of_rows_def mat_identity_def
  translation_column_def rotation_block_def block_apply_def

text \<open>Nothing in the loops of \<^verbatim>\<open>TrackCamera\<close> assigns the quality field.\<close>

lemma check_poseQuality:
  "poseQuality (trackingState (TrackCamera_check ext r s)) = poseQuality (trackingState s)"
  by (simp add: TrackCamera_check_def Let_def split: prod.splits)

lemma step_poseQuality:
  "poseQuality (trackingState (snd (TrackCamera_step ext t s))) = poseQuality (trackingState s)"
  by (simp add: TrackCamera_step_def Let_def)

lemma iteration_poseQuality:
  "poseQuality (trackingState (snd (TrackCamera_iteration ext t s)))
     = poseQuality (trackingState s)"
  by (simp add: TrackCamera_iteration_def step_poseQuality check_poseQuality)

lemma iterations_poseQuality:
  "poseQuality (trackingState (TrackCamera_iterations ext t n s)) = poseQuality (trackingState s)"
proof (induction n arbitrary: s)
  case 0
  show ?case by simp
next
  case (Suc n)
  obtain step s' where it: "TrackCamera_iteration ext t s = (step, s')"
    by (cases "TrackCamera_iteration ext t s")
  have "poseQuality (trackingState s') = poseQuality (trackingState s)"
    using iteration_poseQuality [of ext t s] it by simp
  with Suc.IH [of s'] it show ?case by simp
qed

lemma level_poseQuality:
  "poseQuality (trackingState (snd (TrackCamera_level ext l ts)))
     = poseQuality (trackingState (snd ts))"
  by (cases ts) (simp add: TrackCamera_level_def Let_def iterations_poseQuality)

lemma levels_poseQuality:
  "poseQuality (trackingState (snd (TrackCamera_levels ext l ts)))
     = poseQuality (trackingState (snd ts))"
  by (induction l arbitrary: ts) (simp_all add: level_poseQuality)

lemma loops_poseQuality:
  "poseQuality (trackingState (snd (TrackCamera_loops ext ts view t))) = poseQuality ts"
  by (simp add: TrackCamera_loops_def Let_def levels_poseQuality TrackCamera_init_def)

lemma poseQuality_refines:
  "TrackCamera_poseQuality r i d = quality_value (spec_quality r i d)"
  by (simp add: TrackCamera_poseQuality_def spec_quality_def thresholdResidual_def
      thresholdInliers_def thresholdDet_def Let_def)

text \<open>The loops of \<^verbatim>\<open>SetupLevels\<close>, entry by entry.\<close>

lemma length_SetupLevels_thresholds [simp]:
  "length (SetupLevels_thresholds l val step arr) = length arr"
  by (induction l arbitrary: val arr) simp_all


lemma round_nearest_even_of_int [simp]: "round_nearest_even (of_int k) = k"
  by (simp add: round_nearest_even_def)

lemma float_exponent_from_lower: "- 126 \<le> float_exponent_from n x"
  by (induction n) auto


lemma float_exponent_from_upper:
  assumes "\<bar>x\<bar> < 2 powi (k + 1)" "- 126 \<le> k"
  shows "float_exponent_from n x \<le> k"
proof (induction n)
  case 0
  with assms show ?case by simp
next
  case (Suc n)
  show ?case
  proof (cases "2 powi (int (Suc n) - 126) \<le> \<bar>x\<bar>")
    case True
    with assms(1) have "(2::real) powi (int (Suc n) - 126) < 2 powi (k + 1)" by linarith
    note this
    have "int (Suc n) - 126 < k + 1"
    proof (rule ccontr)
      assume "\<not> int (Suc n) - 126 < k + 1"
      then have "k + 1 \<le> int (Suc n) - 126" by simp
      then have "(2::real) powi (k + 1) \<le> 2 powi (int (Suc n) - 126)"
        by (intro power_int_increasing) simp_all
      with \<open>(2::real) powi (int (Suc n) - 126) < 2 powi (k + 1)\<close> show False by simp
    qed
    with True show ?thesis by simp
  next
    case False
    with Suc show ?thesis by simp
  qed
qed

lemma float_exponent_from_ge:
  assumes "2 powi e \<le> \<bar>x\<bar>" "- 126 \<le> e" "e \<le> int n - 126"
  shows "e \<le> float_exponent_from n x"
  using assms(3)
proof (induction n)
  case 0
  with assms show ?case by simp
next
  case (Suc n)
  show ?case
  proof (cases "2 powi (int (Suc n) - 126) \<le> \<bar>x\<bar>")
    case True
    with Suc.prems show ?thesis by simp
  next
    case False
    with assms(1) have "e \<noteq> int (Suc n) - 126" by auto
    with Suc.prems have "e \<le> int n - 126" by simp
    with Suc.IH False show ?thesis by simp
  qed
qed

lemma float_exponent_eq:
  assumes "2 powi e \<le> \<bar>x\<bar>" "\<bar>x\<bar> < 2 powi (e + 1)" "- 126 \<le> e" "e \<le> 127"
  shows "float_exponent x = e"
proof -
  have "float_exponent_from 253 x \<le> e"
    by (rule float_exponent_from_upper [OF assms(2,3)])
  moreover have "e \<le> float_exponent_from 253 x"
    by (rule float_exponent_from_ge [OF assms(1,3)]) (use assms(4) in simp)
  ultimately show ?thesis by (simp add: float_exponent_def)
qed


lemma float32_exact:
  assumes "\<bar>x\<bar> < 2 powi (k + 1)" "- 126 \<le> k" "x = of_int m * 2 powi (k - 23)"
  shows "float32 x = x"
proof -
  define e where "e = float_exponent x"
  have ek: "e \<le> k"
    unfolding e_def float_exponent_def by (rule float_exponent_from_upper [OF assms(1,2)])
  have "x / 2 powi (e - 23) = of_int m * (2 powi (k - 23) / 2 powi (e - 23))"
    by (simp add: assms(3))
  also have "2 powi (k - 23) / 2 powi (e - 23) = (2::real) powi (k - e)"
    by (simp add: power_int_diff)
  also have "(2::real) powi (k - e) = 2 ^ nat (k - e)"
    using ek by (simp add: power_int_def)
  also have "of_int m * 2 ^ nat (k - e) = (of_int (m * 2 ^ nat (k - e)) :: real)"
    by simp
  finally have q: "x / 2 powi (e - 23) = of_int (m * 2 ^ nat (k - e))" .
  have "float32 x = of_int (round_nearest_even (x / 2 powi (e - 23))) * 2 powi (e - 23)"
    by (simp add: float32_def Let_def e_def)
  also have "\<dots> = of_int (m * 2 ^ nat (k - e)) * 2 powi (e - 23)"
    by (simp only: q round_nearest_even_of_int)
  also have "\<dots> = x / 2 powi (e - 23) * 2 powi (e - 23)"
    by (simp only: q)
  also have "\<dots> = x" by simp
  finally show ?thesis .
qed

lemma float32_of_int:
  assumes "\<bar>n\<bar> < 2 ^ 24"
  shows "float32 (of_int n) = of_int n"
proof (rule float32_exact [where k = 23 and m = n])
  have "\<bar>real_of_int n\<bar> < 2 ^ 24"
    using assms by (metis of_int_abs of_int_less_numeral_power_cancel_iff)
  then show "\<bar>real_of_int n\<bar> < 2 powi (23 + 1)" by simp
qed simp_all

lemma float32_dyadic:
  assumes "\<bar>n\<bar> < 2 ^ 24" "j \<le> 100"
  shows "float32 (of_int n / 2 ^ j) = of_int n / 2 ^ j"
proof (rule float32_exact [where k = "23 - int j" and m = n])
  have "\<bar>real_of_int n\<bar> < 2 ^ 24"
    using assms by (metis of_int_abs of_int_less_numeral_power_cancel_iff)
  then have "\<bar>real_of_int n / 2 ^ j\<bar> < 2 ^ 24 / 2 ^ j"
    by (simp add: divide_strict_right_mono)
  also have "(2::real) ^ 24 / 2 ^ j = 2 powi (23 - int j + 1)"
    by (simp add: power_int_diff power_int_add)
  finally show "\<bar>real_of_int n / 2 ^ j\<bar> < 2 powi (23 - int j + 1)" .
  show "- 126 \<le> 23 - int j" using assms(2) by simp
  show "real_of_int n / 2 ^ j = real_of_int n * 2 powi (23 - int j - 23)"
    by (simp add: power_int_minus field_simps)
qed

lemma float32_0 [simp]: "float32 0 = 0"
  using float32_of_int [of 0] by simp

lemma float32_1 [simp]: "float32 1 = 1"
  using float32_of_int [of 1] by simp

lemma float32_numeral [simp]:
  "numeral n < (2::int) ^ 24 \<Longrightarrow> float32 (numeral n) = numeral n"
  using float32_of_int [of "numeral n"] by simp

lemma float32_neg_numeral [simp]:
  "numeral n < (2::int) ^ 24 \<Longrightarrow> float32 (- numeral n) = - numeral n"
  using float32_of_int [of "- numeral n"] by simp

lemma float32_half [simp]:
  "float32 (1 / 2) = 1 / 2"
  "numeral n < (2::int) ^ 24 \<Longrightarrow> float32 (numeral n / 2) = numeral n / 2"
  using float32_dyadic [of 1 1] float32_dyadic [of "numeral n" 1] by simp_all

text \<open>Evaluating \<open>float32\<close> at a number whose exponent is known.\<close>

lemma float32_eval:
  assumes "2 powi e \<le> \<bar>x\<bar>" "\<bar>x\<bar> < 2 powi (e + 1)" "- 126 \<le> e" "e \<le> 127"
  shows "float32 x = of_int (round_nearest_even (x / 2 powi (e - 23))) * 2 powi (e - 23)"
  by (simp add: float32_def Let_def float_exponent_eq [OF assms])

text \<open>The loop of the iteration counts: the running value and its error.\<close>

lemma length_SetupLevels_iterations [simp]:
  "length (SetupLevels_iterations l val step arr) = length arr"
  by (induction l arbitrary: val arr) simp_all

lemma SetupLevels_iterations_nth_aux:
  assumes "f = (\<lambda>v. float32 (v - step))"
  shows "l \<le> length arr \<Longrightarrow> k < length arr \<Longrightarrow>
   SetupLevels_iterations l val step arr ! k =
     (if k < l then C_round ((f ^^ (l - 1 - k)) val) else arr ! k)"
proof (induction l arbitrary: val arr)
  case 0
  then show ?case by simp
next
  case (Suc l)
  have f: "float32 (val - step) = f val" by (simp add: assms)
  show ?case
  proof (cases "k < l")
    case True
    then have "Suc l - 1 - k = Suc (l - 1 - k)" by simp
    then have "(f ^^ (Suc l - 1 - k)) val = (f ^^ (l - 1 - k)) (f val)"
      by (simp only: funpow_Suc_right comp_apply)
    with True Suc show ?thesis
      by (simp add: f)
  next
    case False
    with Suc show ?thesis by (cases "k = l") simp_all
  qed
qed

lemma SetupLevels_iterations_nth:
  "l \<le> length arr \<Longrightarrow> k < length arr \<Longrightarrow>
   SetupLevels_iterations l val step arr ! k =
     (if k < l then C_round (((\<lambda>v. float32 (v - step)) ^^ (l - 1 - k)) val) else arr ! k)"
  by (rule SetupLevels_iterations_nth_aux) simp_all

lemma C_round_of_int [simp]: "C_round (real_of_int n) = n"
  by (simp add: C_round_def) linarith




text \<open>Counting down from an even number in steps of 2 is exact in binary32.\<close>

lemma countdown_exact:
  assumes "j \<le> m" "int m < 2 ^ 23"
  shows "((\<lambda>v. float32 (v - 2)) ^^ j) (of_int (2 * int m)) = of_int (2 * (int m - int j))"
  using assms(1)
proof (induction j)
  case 0
  show ?case by simp
next
  case (Suc j)
  then have j: "j \<le> m" by simp
  have "\<bar>2 * (int m - int (Suc j))\<bar> < 2 ^ 24"
    using Suc.prems assms(2) by simp
  from float32_of_int [OF this]
  have "float32 (real_of_int (2 * (int m - int j)) - 2) = real_of_int (2 * (int m - int (Suc j)))"
    by (simp add: algebra_simps)
  with Suc.IH [OF j] show ?case by simp
qed







lemma SetupLevels_thresholds_nth:
  "l \<le> length arr \<Longrightarrow> k < length arr \<Longrightarrow>
   SetupLevels_thresholds l val step arr ! k =
     (if k < l then val - real (l - 1 - k) * step else arr ! k)"
proof (induction l arbitrary: val arr)
  case 0
  then show ?case by simp
next
  case (Suc l)
  show ?case
  proof (cases "k = l")
    case True
    with Suc show ?thesis by simp
  next
    case False
    with Suc show ?thesis
      by (auto simp: nth_list_update algebra_simps Suc_diff_Suc)
  qed
qed

text \<open>What SetupLevels writes and what it leaves.\<close>

lemma SetupLevels_frame:
  "viewHierarchy (SetupLevels a b c d t) = viewHierarchy t"
  "sceneHierarchy (SetupLevels a b c d t) = sceneHierarchy t"
  "terminationThreshold (SetupLevels a b c d t) = terminationThreshold t"
  "levelId (SetupLevels a b c d t) = levelId t"
  "iterationType (SetupLevels a b c d t) = iterationType t"
  "sceneHierarchyLevel (SetupLevels a b c d t) = sceneHierarchyLevel t"
  "viewHierarchyLevel (SetupLevels a b c d t) = viewHierarchyLevel t"
  "scenePose (SetupLevels a b c d t) = scenePose t"
  by (simp_all add: SetupLevels_def Let_def)

lemma SetupLevels_lengths:
  "length (noIterationsPerLevel (SetupLevels a b c d t)) = length (noIterationsPerLevel t)"
  "length (distThresh (SetupLevels a b c d t)) = length (distThresh t)"
  by (simp_all add: SetupLevels_def Let_def)

lemma SetupLevels_noIterationsPerLevel:
  "noIterationsPerLevel (SetupLevels a b c d t) =
     (if a \<noteq> - 1 \<and> b \<noteq> - 1 then
        SetupLevels_iterations (length (viewHierarchy t)) (float32 (real_of_int a))
          (float32 (float32 (real_of_int (a - b))
             / float32 (real_of_int (int (length (viewHierarchy t)) - 1))))
          (noIterationsPerLevel t)
      else noIterationsPerLevel t)"
  by (simp add: SetupLevels_def Let_def)

lemma SetupLevels_distThresh:
  "distThresh (SetupLevels a b c d t) =
     (if c \<ge> 0 \<and> d \<ge> 0 then
        SetupLevels_thresholds (length (viewHierarchy t)) c
          ((c - d) / real_of_int (int (length (viewHierarchy t)) - 1))
          (distThresh t)
      else distThresh t)"
  by (simp add: SetupLevels_def Let_def)

lemma SetupLevels_noIterationsPerLevel_nth:
  assumes "a \<noteq> - 1" "b \<noteq> - 1" "length (noIterationsPerLevel t) = length (viewHierarchy t)"
    "k < length (viewHierarchy t)"
  shows "noIterationsPerLevel (SetupLevels a b c d t) ! k =
     C_round (((\<lambda>v. float32 (v - float32 (float32 (real_of_int (a - b))
                  / float32 (real_of_int (int (length (viewHierarchy t)) - 1)))))
               ^^ (length (viewHierarchy t) - 1 - k)) (float32 (real_of_int a)))"
  using assms by (simp add: SetupLevels_noIterationsPerLevel SetupLevels_iterations_nth)

text \<open>With the endpoints \<open>2 * L\<close> and 2 the step is 2 and every value is exact.\<close>

lemma SetupLevels_even_counts:
  assumes len: "length (noIterationsPerLevel t) = length (viewHierarchy t)"
    and L: "length (viewHierarchy t) < 2 ^ 23" and k: "k < length (viewHierarchy t)"
  shows "noIterationsPerLevel (SetupLevels (2 * int (length (viewHierarchy t))) 2 c d t) ! k
           = 2 * (int k + 1)"
proof -
  define L where "L = length (viewHierarchy t)"
  define step where "step = float32 (float32 (real_of_int (2 * int L - 2))
      / float32 (real_of_int (int L - 1)))"
  have L': "int L < 2 ^ 23" using L by (simp add: L_def)
  have kL: "k < L" using k by (simp add: L_def)
  have ne: "2 * int L \<noteq> - 1" "(2::int) \<noteq> - 1" by presburger+
  have val: "float32 (real_of_int (2 * int L)) = real_of_int (2 * int L)"
    using L' by (intro float32_of_int) simp
  have eq: "noIterationsPerLevel (SetupLevels (2 * int L) 2 c d t) ! k =
      C_round (((\<lambda>v. float32 (v - step)) ^^ (L - 1 - k)) (real_of_int (2 * int L)))"
    using SetupLevels_noIterationsPerLevel_nth [OF ne len k, of c d]
    by (simp only: L_def [symmetric] step_def val)
  have run: "((\<lambda>v. float32 (v - step)) ^^ (L - 1 - k)) (real_of_int (2 * int L))
      = real_of_int (2 * (int L - int (L - 1 - k)))"
  proof (cases "L = 1")
    case True
    with kL show ?thesis by simp
  next
    case False
    with kL have L2: "2 \<le> L" by simp
    have a: "float32 (real_of_int (2 * int L - 2)) = real_of_int (2 * int L - 2)"
      using L' L2 by (intro float32_of_int) simp
    have b: "float32 (real_of_int (int L - 1)) = real_of_int (int L - 1)"
      using L' L2 by (intro float32_of_int) simp
    have "real_of_int (int L - 1) \<noteq> 0" using L2 by simp
    moreover have "real_of_int (2 * int L - 2) = 2 * real_of_int (int L - 1)" by simp
    ultimately have "real_of_int (2 * int L - 2) / real_of_int (int L - 1) = 2"
      by (simp del: of_int_diff)
    then have "step = 2"
      by (simp only: step_def a b float32_numeral) simp
    then show ?thesis
      using countdown_exact [of "L - 1 - k" L] L' by simp
  qed
  have "2 * (int L - int (L - 1 - k)) = 2 * (int k + 1)"
    using kL by simp
  with eq run show ?thesis
    by (simp only: L_def [symmetric] C_round_of_int)
qed

lemma SetupLevels_distThresh_nth:
  assumes "c \<ge> 0" "d \<ge> 0" "length (distThresh t) = length (viewHierarchy t)"
    "k < length (viewHierarchy t)"
  shows "distThresh (SetupLevels a b c d t) ! k =
     c - real (length (viewHierarchy t) - 1 - k)
        * ((c - d) / real_of_int (int (length (viewHierarchy t)) - 1))"
  using assms by (simp add: SetupLevels_distThresh SetupLevels_thresholds_nth)

lemma example_tracker_fields:
  "length (viewHierarchy (example_tracker r)) = length r"
  "length (noIterationsPerLevel (example_tracker r)) = length r"
  "length (distThresh (example_tracker r)) = length r"
  "length (sceneHierarchy (example_tracker r)) = length r"
  "terminationThreshold (example_tracker r) = 1 / 1000"
  "map view_iterationType (viewHierarchy (example_tracker r)) = r"
  by (simp_all add: example_tracker_def ITMDepthTracker_new_def Let_def SetupLevels_frame
      SetupLevels_lengths new_viewHierarchy_def new_sceneHierarchy_def map_nth comp_def)


lemma C_round_numeral [simp]: "C_round (numeral n) = numeral n"
  using C_round_of_int [of "numeral n"] by simp






text \<open>
  The limit of the exact counts of the constructor: with \<open>2\<^sup>2\<^sup>4 + 1\<close> levels the coarse
  endpoint \<open>2 * L = 33554434\<close> is not a binary32 number, \<^verbatim>\<open>(float)numIterCoarse\<close> is
  \<open>33554432\<close>, and that is the count of the coarsest level.
\<close>

lemma float32_above_two_to_25: "float32 33554434 = 33554432"
  using float32_eval [of 25 33554434]
  by (simp add: power_int_minus round_nearest_even_def Let_def)

lemma SetupLevels_counts_limit:
  assumes "length (viewHierarchy t) = 16777217" "length (noIterationsPerLevel t) = 16777217"
  shows "noIterationsPerLevel (SetupLevels 33554434 2 c d t) ! 16777216 = 33554432"
proof -
  have "noIterationsPerLevel (SetupLevels 33554434 2 c d t) ! 16777216
      = C_round (float32 33554434)"
    using SetupLevels_noIterationsPerLevel_nth [of 33554434 2 t 16777216 c d] assms
    by simp
  then show ?thesis
    by (simp add: float32_above_two_to_25 C_round_def)
qed

lemma ITMDepthTracker_new_counts_limit:
  assumes "length new_int = 16777217" "length new_float = 16777217"
  shows "noIterationsPerLevel (ITMDepthTracker_new trackingRegime 16777217 thr blank_img blank_pts
      new_int new_float raw) ! 16777216 = 33554432"
proof -
  define L :: nat where "L = 16777217"
  define t0 where "t0 = raw\<lparr>viewHierarchy := new_viewHierarchy trackingRegime L blank_img,
                        sceneHierarchy := new_sceneHierarchy trackingRegime L blank_pts,
                        noIterationsPerLevel := new_int,
                        distThresh := new_float\<rparr>"
  have l0: "length (viewHierarchy t0) = L" "length (noIterationsPerLevel t0) = L"
    using assms by (simp_all add: t0_def new_viewHierarchy_def L_def [symmetric])
  have "noIterationsPerLevel (ITMDepthTracker_new trackingRegime L thr blank_img blank_pts
      new_int new_float raw) = noIterationsPerLevel (SetupLevels (2 * int L) 2 (1 / 100) (2 / 1000) t0)"
    by (simp add: t0_def ITMDepthTracker_new_def Let_def mult.commute)
  moreover have "2 * int L = 33554434" by (simp add: L_def)
  moreover have "noIterationsPerLevel (SetupLevels 33554434 2 (1 / 100) (2 / 1000) t0) ! 16777216
      = 33554432"
    by (rule SetupLevels_counts_limit) (simp_all only: l0 L_def)
  ultimately show ?thesis by (simp only: L_def)
qed


lemma upt_simps: "[0..<1] = [0]" "[0..<2] = [0, 1]" "[0..<3] = [0, 1, 2]"
  by (simp_all add: upt_rec)

lemmas example_tracker_defs =
  example_tracker_def ITMDepthTracker_new_def SetupLevels_def new_viewHierarchy_def
  new_sceneHierarchy_def example_raw_def C_round_def

lemma example_tracker_counts:
  assumes "length r < 2 ^ 23" "k < length r"
  shows "noIterationsPerLevel (example_tracker r) ! k = 2 * (int k + 1)"
proof -
  let ?t0 = "example_raw\<lparr>viewHierarchy := new_viewHierarchy r (length r) 0,
                        sceneHierarchy := new_sceneHierarchy r (length r) 0,
                        noIterationsPerLevel := replicate (length r) 0,
                        distThresh := replicate (length r) 0\<rparr>"
  have l: "length (viewHierarchy ?t0) = length r" "length (noIterationsPerLevel ?t0) = length r"
    by (simp_all add: new_viewHierarchy_def)
  have "noIterationsPerLevel (example_tracker r)
      = noIterationsPerLevel (SetupLevels (2 * int (length r)) 2 (1 / 100) (2 / 1000) ?t0)"
    by (simp add: example_tracker_def ITMDepthTracker_new_def Let_def mult.commute)
  moreover have "noIterationsPerLevel (SetupLevels (2 * int (length r)) 2 (1 / 100) (2 / 1000)
      ?t0) ! k = 2 * (int k + 1)"
    using SetupLevels_even_counts [of ?t0 k "1 / 100" "2 / 1000"] assms
    by (simp add: new_viewHierarchy_def)
  ultimately show ?thesis by simp
qed

lemma example_tracker_1:
  "noIterationsPerLevel (example_tracker [a]) = [2]" "distThresh (example_tracker [a]) = [1 / 100]"
proof -
  show "distThresh (example_tracker [a]) = [1 / 100]"
    by (simp add: example_tracker_defs)
  show "noIterationsPerLevel (example_tracker [a]) = [2]"
  proof (rule nth_equalityI)
    show "length (noIterationsPerLevel (example_tracker [a])) = length [2 :: int]"
      by (simp add: example_tracker_fields)
  next
    fix k assume "k < length (noIterationsPerLevel (example_tracker [a]))"
    then have "k = 0" by (simp add: example_tracker_fields)
    then show "noIterationsPerLevel (example_tracker [a]) ! k = [2] ! k"
      using example_tracker_counts [of "[a]" 0] by simp
  qed
qed

lemma example_tracker_2:
  "noIterationsPerLevel (example_tracker [a, b]) = [2, 4]"
  "distThresh (example_tracker [a, b]) = [2 / 1000, 1 / 100]"
proof -
  show "distThresh (example_tracker [a, b]) = [2 / 1000, 1 / 100]"
    by (simp add: example_tracker_defs upt_simps numeral_2_eq_2)
  show "noIterationsPerLevel (example_tracker [a, b]) = [2, 4]"
  proof (rule nth_equalityI)
    show "length (noIterationsPerLevel (example_tracker [a, b])) = length [2, 4 :: int]"
      by (simp add: example_tracker_fields)
  next
    fix k assume "k < length (noIterationsPerLevel (example_tracker [a, b]))"
    then have "k = 0 \<or> k = 1" by (auto simp: example_tracker_fields)
    then show "noIterationsPerLevel (example_tracker [a, b]) ! k = [2, 4] ! k"
      using example_tracker_counts [of "[a, b]" 0] example_tracker_counts [of "[a, b]" 1]
      by auto
  qed
qed



lemma fold_preserves:
  assumes "\<And>i s. g (f i s) = g s"
  shows "g (fold f xs s) = g s"
  using assms by (induction xs arbitrary: s) simp_all

lemma map_update_same:
  "map f (xs[i := y]) = map f xs" if "f y = f (xs ! i)"
proof (cases "i < length xs")
  case True
  then show ?thesis
    by (simp add: that map_update list_update_same_conv)
next
  case False
  then have "xs[i := y] = xs"
    by (simp add: list_update_beyond)
  then show ?thesis by simp
qed

text \<open>What the preparation of the evaluation writes and what it leaves.\<close>

lemma SetEvaluationData_frame:
  "noIterationsPerLevel (SetEvaluationData ext ts view t) = noIterationsPerLevel t"
  "distThresh (SetEvaluationData ext ts view t) = distThresh t"
  "terminationThreshold (SetEvaluationData ext ts view t) = terminationThreshold t"
  "iterationType (SetEvaluationData ext ts view t) = iterationType t"
  "length (viewHierarchy (SetEvaluationData ext ts view t)) = length (viewHierarchy t)"
  "length (sceneHierarchy (SetEvaluationData ext ts view t)) = length (sceneHierarchy t)"
  "map view_iterationType (viewHierarchy (SetEvaluationData ext ts view t))
     = map view_iterationType (viewHierarchy t)"
  by (simp_all add: SetEvaluationData_def Let_def map_update_same)

lemma PrepareForEvaluation_body_frame:
  "noIterationsPerLevel (PrepareForEvaluation_body ext i t) = noIterationsPerLevel t"
  "distThresh (PrepareForEvaluation_body ext i t) = distThresh t"
  "terminationThreshold (PrepareForEvaluation_body ext i t) = terminationThreshold t"
  "iterationType (PrepareForEvaluation_body ext i t) = iterationType t"
  "length (viewHierarchy (PrepareForEvaluation_body ext i t)) = length (viewHierarchy t)"
  "length (sceneHierarchy (PrepareForEvaluation_body ext i t)) = length (sceneHierarchy t)"
  "map view_iterationType (viewHierarchy (PrepareForEvaluation_body ext i t))
     = map view_iterationType (viewHierarchy t)"
  "map scene_pointsMap (sceneHierarchy (PrepareForEvaluation_body ext i t))
     = map scene_pointsMap (sceneHierarchy t)"
  "map scene_normalsMap (sceneHierarchy (PrepareForEvaluation_body ext i t))
     = map scene_normalsMap (sceneHierarchy t)"
  by (simp_all add: PrepareForEvaluation_body_def Let_def map_update_same)

lemma PrepareForEvaluation_frame:
  "noIterationsPerLevel (PrepareForEvaluation ext t) = noIterationsPerLevel t"
  "distThresh (PrepareForEvaluation ext t) = distThresh t"
  "terminationThreshold (PrepareForEvaluation ext t) = terminationThreshold t"
  "iterationType (PrepareForEvaluation ext t) = iterationType t"
  "length (viewHierarchy (PrepareForEvaluation ext t)) = length (viewHierarchy t)"
  "length (sceneHierarchy (PrepareForEvaluation ext t)) = length (sceneHierarchy t)"
  "map view_iterationType (viewHierarchy (PrepareForEvaluation ext t))
     = map view_iterationType (viewHierarchy t)"
  "map scene_pointsMap (sceneHierarchy (PrepareForEvaluation ext t))
     = map scene_pointsMap (sceneHierarchy t)"
  "map scene_normalsMap (sceneHierarchy (PrepareForEvaluation ext t))
     = map scene_normalsMap (sceneHierarchy t)"
  unfolding PrepareForEvaluation_def
  by (rule fold_preserves, simp add: PrepareForEvaluation_body_frame)+

text \<open>The loop over the levels changes the tracker through \<^verbatim>\<open>SetEvaluationParams\<close> only.\<close>

lemma TrackCamera_level_fst:
  "fst (TrackCamera_level ext l ts) = SetEvaluationParams l (fst ts)"
  by (cases ts) (simp add: TrackCamera_level_def Let_def)

lemma SetEvaluationParams_frame:
  "viewHierarchy (SetEvaluationParams l t) = viewHierarchy t"
  "sceneHierarchy (SetEvaluationParams l t) = sceneHierarchy t"
  "noIterationsPerLevel (SetEvaluationParams l t) = noIterationsPerLevel t"
  "distThresh (SetEvaluationParams l t) = distThresh t"
  "terminationThreshold (SetEvaluationParams l t) = terminationThreshold t"
  "scenePose (SetEvaluationParams l t) = scenePose t"
  by (simp_all add: SetEvaluationParams_def)

lemma TrackCamera_levels_frame:
  "viewHierarchy (fst (TrackCamera_levels ext n ts)) = viewHierarchy (fst ts)"
  "sceneHierarchy (fst (TrackCamera_levels ext n ts)) = sceneHierarchy (fst ts)"
  "noIterationsPerLevel (fst (TrackCamera_levels ext n ts)) = noIterationsPerLevel (fst ts)"
  "distThresh (fst (TrackCamera_levels ext n ts)) = distThresh (fst ts)"
  "terminationThreshold (fst (TrackCamera_levels ext n ts)) = terminationThreshold (fst ts)"
  by (induction n arbitrary: ts)
     (simp_all add: TrackCamera_level_fst SetEvaluationParams_frame)

lemma TrackCamera_levels_iterationType:
  "0 < n \<Longrightarrow> iterationType (fst (TrackCamera_levels ext n ts))
     = view_iterationType (viewHierarchy (fst ts) ! 0)"
proof (induction n arbitrary: ts)
  case 0
  then show ?case by simp
next
  case (Suc n)
  show ?case
  proof (cases n)
    case 0
    then show ?thesis
      by (simp add: TrackCamera_level_fst SetEvaluationParams_def)
  next
    case (Suc m)
    then have "0 < n" by simp
    from Suc.IH [OF this, of "TrackCamera_level ext n ts"] show ?thesis
      by (simp add: TrackCamera_level_fst SetEvaluationParams_frame)
  qed
qed

lemma TrackCamera_init_frame:
  "length (viewHierarchy (fst (TrackCamera_init ext ts view t))) = length (viewHierarchy t)"
  "map view_iterationType (viewHierarchy (fst (TrackCamera_init ext ts view t)))
     = map view_iterationType (viewHierarchy t)"
  "noIterationsPerLevel (fst (TrackCamera_init ext ts view t)) = noIterationsPerLevel t"
  "distThresh (fst (TrackCamera_init ext ts view t)) = distThresh t"
  "terminationThreshold (fst (TrackCamera_init ext ts view t)) = terminationThreshold t"
  by (simp_all add: TrackCamera_init_def Let_def PrepareForEvaluation_frame SetEvaluationData_frame)

lemma TrackCamera_loops_iterationType:
  assumes "viewHierarchy t \<noteq> []"
  shows "iterationType (fst (TrackCamera_loops ext ts view t))
     = view_iterationType (viewHierarchy t ! 0)"
proof -
  let ?i = "TrackCamera_init ext ts view t"
  have n: "0 < length (viewHierarchy (fst ?i))"
    using assms by (simp add: TrackCamera_init_frame)
  have "view_iterationType (viewHierarchy (fst ?i) ! 0)
      = map view_iterationType (viewHierarchy (fst ?i)) ! 0"
    using n by simp
  also have "\<dots> = view_iterationType (viewHierarchy t ! 0)"
    using assms by (simp add: TrackCamera_init_frame)
  finally show ?thesis
    using TrackCamera_levels_iterationType [OF n, of ext ?i]
    by (simp add: TrackCamera_loops_def Let_def)
qed

text \<open>The intrinsics of the scene levels after the preparation.\<close>

lemma PrepareForEvaluation_body_scene_nth:
  "sceneHierarchy (PrepareForEvaluation_body ext n t) ! i =
     (if i = n \<and> n < length (sceneHierarchy t)
      then (sceneHierarchy t ! n)\<lparr>scene_intrinsics :=
              vec_scale (scene_intrinsics (sceneHierarchy t ! (n - 1))) (1 / 2)\<rparr>
      else sceneHierarchy t ! i)"
  by (cases "n < length (sceneHierarchy t)")
     (simp_all add: PrepareForEvaluation_body_def Let_def nth_list_update list_update_beyond)

lemma PrepareForEvaluation_loop_intrinsics:
  assumes "0 < i" "i < n" "i < length (sceneHierarchy t)"
  shows "scene_intrinsics (sceneHierarchy (fold (PrepareForEvaluation_body ext) [1..<n] t) ! i)
     = vec_scale (scene_intrinsics
          (sceneHierarchy (fold (PrepareForEvaluation_body ext) [1..<n] t) ! (i - 1))) (1 / 2)"
  using assms
proof (induction n)
  case 0
  then show ?case by simp
next
  case (Suc n)
  let ?F = "fold (PrepareForEvaluation_body ext) [1..<n] t"
  have n1: "1 \<le> n" using Suc.prems by simp
  then have step: "fold (PrepareForEvaluation_body ext) [1..<Suc n] t
      = PrepareForEvaluation_body ext n ?F"
    by simp
  have len: "length (sceneHierarchy ?F) = length (sceneHierarchy t)"
    by (rule fold_preserves) (simp add: PrepareForEvaluation_body_frame)
  show ?case
  proof (cases "i = n")
    case True
    have "n - 1 \<noteq> n" using n1 by simp
    with True Suc.prems len show ?thesis
      unfolding step by (simp add: PrepareForEvaluation_body_scene_nth)
  next
    case False
    with Suc.prems have "i < n" by simp
    then have "i - 1 \<noteq> n" by simp
    with Suc.IH [OF Suc.prems(1) \<open>i < n\<close> Suc.prems(3)] False show ?thesis
      unfolding step by (simp add: PrepareForEvaluation_body_scene_nth)
  qed
qed

lemma PrepareForEvaluation_intrinsics:
  assumes "0 < i" "i < length (viewHierarchy t)" "i < length (sceneHierarchy t)"
  shows "scene_intrinsics (sceneHierarchy (PrepareForEvaluation ext t) ! i)
     = vec_scale (scene_intrinsics (sceneHierarchy (PrepareForEvaluation ext t) ! (i - 1))) (1 / 2)"
  unfolding PrepareForEvaluation_def
  using PrepareForEvaluation_loop_intrinsics [OF assms(1) assms(2) assms(3)] .

text \<open>
  Replacing \<^verbatim>\<open>ComputeGandH\<close> by a function that agrees with it on the trackers whose
  scene level is level 0 changes nothing.
\<close>

lemma ComputeGandH_update_prepare:
  "SetEvaluationData (ext\<lparr>ComputeGandH := G\<rparr>) ts view t = SetEvaluationData ext ts view t"
  "PrepareForEvaluation (ext\<lparr>ComputeGandH := G\<rparr>) t = PrepareForEvaluation ext t"
proof -
  have "PrepareForEvaluation_body (ext\<lparr>ComputeGandH := G\<rparr>) = PrepareForEvaluation_body ext"
    by (intro ext) (simp add: PrepareForEvaluation_body_def)
  then show "PrepareForEvaluation (ext\<lparr>ComputeGandH := G\<rparr>) t = PrepareForEvaluation ext t"
    by (simp add: PrepareForEvaluation_def)
  show "SetEvaluationData (ext\<lparr>ComputeGandH := G\<rparr>) ts view t = SetEvaluationData ext ts view t"
    by (simp add: SetEvaluationData_def)
qed

lemma ComputeGandH_update_others:
  "TrackCamera_check (ext\<lparr>ComputeGandH := G\<rparr>) r s = TrackCamera_check ext r s"
  "TrackCamera_step (ext\<lparr>ComputeGandH := G\<rparr>) t s = TrackCamera_step ext t s"
  "TrackCamera_assess (ext\<lparr>ComputeGandH := G\<rparr>) view p = TrackCamera_assess ext view p"
  "TrackCamera_init (ext\<lparr>ComputeGandH := G\<rparr>) ts view t = TrackCamera_init ext ts view t"
proof -
  show "TrackCamera_check (ext\<lparr>ComputeGandH := G\<rparr>) r s = TrackCamera_check ext r s"
    by (simp add: TrackCamera_check_def Let_def split: prod.splits)
  show "TrackCamera_step (ext\<lparr>ComputeGandH := G\<rparr>) t s = TrackCamera_step ext t s"
    by (simp add: TrackCamera_step_def ComputeDelta_def Let_def)
  show "TrackCamera_assess (ext\<lparr>ComputeGandH := G\<rparr>) view p = TrackCamera_assess ext view p"
    by (simp add: TrackCamera_assess_def TrackCamera_det_norm_def Let_def split: prod.splits)
  show "TrackCamera_init (ext\<lparr>ComputeGandH := G\<rparr>) ts view t = TrackCamera_init ext ts view t"
    by (simp add: TrackCamera_init_def ComputeGandH_update_prepare Let_def)
qed

lemma TrackCamera_iterations_level_0_only:
  assumes "\<And>t' M. sceneHierarchyLevel t' = 0 \<Longrightarrow> G t' M = ComputeGandH ext t' M"
    and "sceneHierarchyLevel t = 0"
  shows "TrackCamera_iterations (ext\<lparr>ComputeGandH := G\<rparr>) t n s = TrackCamera_iterations ext t n s"
proof (induction n arbitrary: s)
  case 0
  show ?case by simp
next
  case (Suc n)
  have "TrackCamera_iteration (ext\<lparr>ComputeGandH := G\<rparr>) t s = TrackCamera_iteration ext t s"
    using assms by (simp add: TrackCamera_iteration_def ComputeGandH_update_others)
  with Suc.IH show ?case by (simp split: prod.splits)
qed

lemma TrackCamera_level_level_0_only:
  assumes "\<And>t' M. sceneHierarchyLevel t' = 0 \<Longrightarrow> G t' M = ComputeGandH ext t' M"
  shows "TrackCamera_level (ext\<lparr>ComputeGandH := G\<rparr>) l p = TrackCamera_level ext l p"
proof -
  obtain t s where p: "p = (t, s)" by (cases p)
  have "sceneHierarchyLevel (SetEvaluationParams l t) = 0"
    by (simp add: SetEvaluationParams_def)
  note TrackCamera_iterations_level_0_only [OF assms this]
  then show ?thesis
    by (simp add: p TrackCamera_level_def Let_def)
qed

lemma TrackCamera_levels_level_0_only:
  assumes "\<And>t' M. sceneHierarchyLevel t' = 0 \<Longrightarrow> G t' M = ComputeGandH ext t' M"
  shows "TrackCamera_levels (ext\<lparr>ComputeGandH := G\<rparr>) n p = TrackCamera_levels ext n p"
  by (induction n arbitrary: p) (simp_all add: TrackCamera_level_level_0_only [OF assms])

lemma TrackCamera_level_0_only:
  assumes "\<And>t' M. sceneHierarchyLevel t' = 0 \<Longrightarrow> G t' M = ComputeGandH ext t' M"
  shows "TrackCamera (ext\<lparr>ComputeGandH := G\<rparr>) ts view t = TrackCamera ext ts view t"
  by (simp add: TrackCamera_def TrackCamera_loops_def Let_def ComputeGandH_update_others
      TrackCamera_levels_level_0_only [OF assms])

lemma TrackCamera_init_scene_level_0:
  assumes "sceneHierarchy t \<noteq> []"
  shows "scene_pointsMap (sceneHierarchy (fst (TrackCamera_init ext ts view t)) ! 0)
           = pointCloud_locations ts"
    "scene_normalsMap (sceneHierarchy (fst (TrackCamera_init ext ts view t)) ! 0)
           = pointCloud_colours ts"
proof -
  let ?d = "SetEvaluationData ext ts view t"
  let ?p = "PrepareForEvaluation ext ?d"
  have n: "0 < length (sceneHierarchy ?p)"
    using assms by (simp add: PrepareForEvaluation_frame SetEvaluationData_frame)
  have "scene_pointsMap (sceneHierarchy ?p ! 0) = map scene_pointsMap (sceneHierarchy ?p) ! 0"
    using n by simp
  also have "\<dots> = map scene_pointsMap (sceneHierarchy ?d) ! 0"
    by (simp add: PrepareForEvaluation_frame)
  also have "\<dots> = pointCloud_locations ts"
    using assms by (simp add: SetEvaluationData_def Let_def)
  finally show "scene_pointsMap (sceneHierarchy (fst (TrackCamera_init ext ts view t)) ! 0)
           = pointCloud_locations ts"
    by (simp add: TrackCamera_init_def Let_def)
  have "scene_normalsMap (sceneHierarchy ?p ! 0) = map scene_normalsMap (sceneHierarchy ?p) ! 0"
    using n by simp
  also have "\<dots> = map scene_normalsMap (sceneHierarchy ?d) ! 0"
    by (simp add: PrepareForEvaluation_frame)
  also have "\<dots> = pointCloud_colours ts"
    using assms by (simp add: SetEvaluationData_def Let_def)
  finally show "scene_normalsMap (sceneHierarchy (fst (TrackCamera_init ext ts view t)) ! 0)
           = pointCloud_colours ts"
    by (simp add: TrackCamera_init_def Let_def)
qed

lemma upt_36: "[0..<36] = [0,1,2,3,4,5,6,7,8,9,10,11,12,13,14,15,16,17,18,19,20,21,22,23,24,25,26,27,28,29,30,31,32,33,34,35]"
  by (simp add: upt_rec)

lemma TrackCamera_level_NONE:
  assumes "view_iterationType (viewHierarchy t ! l) = TRACKER_ITERATION_NONE"
  shows "snd (TrackCamera_level ext l (t, s)) = s"
  using assms by (simp add: TrackCamera_level_def Let_def SetEvaluationParams_def)

text \<open>The instance: one iteration at a level of type Both accepts and converges.\<close>

lemma example_iteration:
  assumes "iterationType t = TRACKER_ITERATION_BOTH" "0 \<le> f_old s"
  shows "fst (TrackCamera_iteration example_external t s) = [0, 0, 0, 0, 0, 0]"
    "hessian_good (snd (TrackCamera_iteration example_external t s)) = identity_36"
    "noValidPoints_old (snd (TrackCamera_iteration example_external t s)) = 1"
    "f_old (snd (TrackCamera_iteration example_external t s)) = 0"
proof -
  let ?c = "TrackCamera_check example_external
              (ComputeGandH example_external t (approxInvPose s)) s"
  have c: "hessian_good ?c = identity_36" "nabla_good ?c = [0, 0, 0, 0, 0, 0]"
      "noValidPoints_old ?c = 1" "f_old ?c = 0"
    using assms(2)
    by (simp_all add: TrackCamera_check_def example_external_def upt_36 upt_6 identity_36_def)
  show "fst (TrackCamera_iteration example_external t s) = [0, 0, 0, 0, 0, 0]"
    using assms(1)
    by (simp add: TrackCamera_iteration_def TrackCamera_step_def Let_def c ComputeDelta_def
        upt_6) (simp add: example_external_def upt_6)
  show "hessian_good (snd (TrackCamera_iteration example_external t s)) = identity_36"
    "noValidPoints_old (snd (TrackCamera_iteration example_external t s)) = 1"
    "f_old (snd (TrackCamera_iteration example_external t s)) = 0"
    by (simp_all add: TrackCamera_iteration_def TrackCamera_step_def Let_def c)
qed

lemma example_iterations:
  assumes "iterationType t = TRACKER_ITERATION_BOTH" "0 \<le> f_old s" "0 < terminationThreshold t"
  shows "TrackCamera_iterations example_external t (Suc n) s
           = snd (TrackCamera_iteration example_external t s)"
proof -
  have "HasConverged (terminationThreshold t) [0, 0, 0, 0, 0, 0]"
    using assms(3) by (simp add: HasConverged_def upt_6)
  moreover obtain step s' where i: "TrackCamera_iteration example_external t s = (step, s')"
    by (cases "TrackCamera_iteration example_external t s")
  moreover have "step = [0, 0, 0, 0, 0, 0]"
    using example_iteration(1) [OF assms(1,2)] i by simp
  ultimately show ?thesis
    by simp
qed

lemma example_level_BOTH:
  assumes "view_iterationType (viewHierarchy t ! l) = TRACKER_ITERATION_BOTH"
    "0 < noIterationsPerLevel t ! l" "0 < terminationThreshold t"
  shows "hessian_good (snd (TrackCamera_level example_external l (t, s))) = identity_36"
    "noValidPoints_old (snd (TrackCamera_level example_external l (t, s))) = 1"
    "f_old (snd (TrackCamera_level example_external l (t, s))) = 0"
proof -
  let ?t = "SetEvaluationParams l t"
  let ?s = "s\<lparr>approxInvPose := GetInvM example_external (pose_d (trackingState s)),
               lastKnownGoodPose := pose_d (trackingState s),
               f_old := 10 ^ 20, noValidPoints_old := 0, lambda := 1\<rparr>"
  obtain n where n: "nat (noIterationsPerLevel ?t ! l) = Suc n"
    using assms(2) by (cases "nat (noIterationsPerLevel ?t ! l)") (simp_all add: SetEvaluationParams_frame)
  have t: "iterationType ?t = TRACKER_ITERATION_BOTH" "0 < terminationThreshold ?t"
    using assms by (simp_all add: SetEvaluationParams_def)
  have f: "0 \<le> f_old ?s" by simp
  have "snd (TrackCamera_level example_external l (t, s))
      = TrackCamera_iterations example_external ?t (Suc n) ?s"
    using t(1) n by (simp add: TrackCamera_level_def Let_def)
  also have "\<dots> = snd (TrackCamera_iteration example_external ?t ?s)"
    by (rule example_iterations [OF t(1) f t(2)])
  finally have e: "snd (TrackCamera_level example_external l (t, s))
      = snd (TrackCamera_iteration example_external ?t ?s)" .
  show "hessian_good (snd (TrackCamera_level example_external l (t, s))) = identity_36"
    "noValidPoints_old (snd (TrackCamera_level example_external l (t, s))) = 1"
    "f_old (snd (TrackCamera_level example_external l (t, s))) = 0"
    unfolding e by (rule example_iteration [OF t(1) f])+
qed

text \<open>The instance, through the loops of \<^verbatim>\<open>TrackCamera\<close>.\<close>

lemma example_init:
  "length (viewHierarchy (fst (TrackCamera_init ext ts view (example_tracker r)))) = length r"
  "map view_iterationType (viewHierarchy (fst (TrackCamera_init ext ts view (example_tracker r)))) = r"
  "noIterationsPerLevel (fst (TrackCamera_init ext ts view (example_tracker r)))
     = noIterationsPerLevel (example_tracker r)"
  "terminationThreshold (fst (TrackCamera_init ext ts view (example_tracker r))) = 1 / 1000"
  by (simp_all add: TrackCamera_init_frame example_tracker_fields)

lemma example_loops_BOTH:
  "hessian_good (snd (TrackCamera_loops example_external ts view
      (example_tracker [TRACKER_ITERATION_BOTH]))) = identity_36"
  "noValidPoints_old (snd (TrackCamera_loops example_external ts view
      (example_tracker [TRACKER_ITERATION_BOTH]))) = 1"
  "f_old (snd (TrackCamera_loops example_external ts view
      (example_tracker [TRACKER_ITERATION_BOTH]))) = 0"
proof -
  let ?r = "[TRACKER_ITERATION_BOTH]"
  obtain t0 s0 where i: "TrackCamera_init example_external ts view (example_tracker ?r) = (t0, s0)"
    by (cases "TrackCamera_init example_external ts view (example_tracker ?r)")
  have t0: "length (viewHierarchy t0) = 1" "map view_iterationType (viewHierarchy t0) = ?r"
      "noIterationsPerLevel t0 = [2]" "terminationThreshold t0 = 1 / 1000"
    using example_init [of example_external ts view ?r] i
    by (simp_all add: example_tracker_1)
  have v: "view_iterationType (viewHierarchy t0 ! 0) = TRACKER_ITERATION_BOTH"
    using t0(1,2) by (cases "viewHierarchy t0") simp_all
  have l: "TrackCamera_loops example_external ts view (example_tracker ?r)
      = TrackCamera_level example_external 0 (t0, s0)"
    by (simp add: TrackCamera_loops_def Let_def i t0(1))
  show "hessian_good (snd (TrackCamera_loops example_external ts view (example_tracker ?r))) = identity_36"
    "noValidPoints_old (snd (TrackCamera_loops example_external ts view (example_tracker ?r))) = 1"
    "f_old (snd (TrackCamera_loops example_external ts view (example_tracker ?r))) = 0"
    unfolding l by (rule example_level_BOTH; simp add: v t0)+
qed

lemma example_loops_NONE_BOTH:
  "hessian_good (snd (TrackCamera_loops example_external ts view
      (example_tracker [TRACKER_ITERATION_NONE, TRACKER_ITERATION_BOTH]))) = identity_36"
  "noValidPoints_old (snd (TrackCamera_loops example_external ts view
      (example_tracker [TRACKER_ITERATION_NONE, TRACKER_ITERATION_BOTH]))) = 1"
  "f_old (snd (TrackCamera_loops example_external ts view
      (example_tracker [TRACKER_ITERATION_NONE, TRACKER_ITERATION_BOTH]))) = 0"
proof -
  let ?r = "[TRACKER_ITERATION_NONE, TRACKER_ITERATION_BOTH]"
  obtain t0 s0 where i: "TrackCamera_init example_external ts view (example_tracker ?r) = (t0, s0)"
    by (cases "TrackCamera_init example_external ts view (example_tracker ?r)")
  have t0: "length (viewHierarchy t0) = 2" "map view_iterationType (viewHierarchy t0) = ?r"
      "noIterationsPerLevel t0 = [2, 4]" "terminationThreshold t0 = 1 / 1000"
    using example_init [of example_external ts view ?r] i
    by (simp_all add: example_tracker_2)
  have "map view_iterationType (viewHierarchy t0) ! 0 = TRACKER_ITERATION_NONE"
    "map view_iterationType (viewHierarchy t0) ! Suc 0 = TRACKER_ITERATION_BOTH"
    by (simp_all add: t0(2))
  then have v: "view_iterationType (viewHierarchy t0 ! 0) = TRACKER_ITERATION_NONE"
    "view_iterationType (viewHierarchy t0 ! Suc 0) = TRACKER_ITERATION_BOTH"
    using t0(1) by simp_all
  obtain t1 s1 where l1: "TrackCamera_level example_external (Suc 0) (t0, s0) = (t1, s1)"
    by (cases "TrackCamera_level example_external (Suc 0) (t0, s0)")
  have t1: "t1 = SetEvaluationParams (Suc 0) t0"
    using TrackCamera_level_fst [of example_external "Suc 0" "(t0, s0)"] l1 by simp
  have s1: "hessian_good s1 = identity_36" "noValidPoints_old s1 = 1" "f_old s1 = 0"
    using example_level_BOTH [of t0 "Suc 0" s0] v(2) t0(3,4) l1 by simp_all
  have "view_iterationType (viewHierarchy t1 ! 0) = TRACKER_ITERATION_NONE"
    by (simp add: t1 SetEvaluationParams_frame v)
  then have "snd (TrackCamera_level example_external 0 (t1, s1)) = s1"
    by (rule TrackCamera_level_NONE)
  then have l: "snd (TrackCamera_loops example_external ts view (example_tracker ?r)) = s1"
    by (simp add: TrackCamera_loops_def Let_def i t0(1) numeral_2_eq_2 l1)
  show "hessian_good (snd (TrackCamera_loops example_external ts view (example_tracker ?r))) = identity_36"
    "noValidPoints_old (snd (TrackCamera_loops example_external ts view (example_tracker ?r))) = 1"
    "f_old (snd (TrackCamera_loops example_external ts view (example_tracker ?r))) = 0"
    unfolding l by (rule s1)+
qed

lemma example_determinant:
  "Cholesky_Determinant example_external (map (\<lambda>i. identity_36 ! i * (1 / 1)) [0..<36]) 6 = 1"
  "Cholesky_Determinant example_external (map (\<lambda>h. h * (1 / 1)) identity_36) 6 = 1"
  "Cholesky_Determinant example_external identity_36 6 = 1"
  "Cholesky_Determinant example_external (map ((!) identity_36) [0..<36]) 6 = 1"
  by (simp_all add: example_external_def upt_36 upt_6 identity_36_def)

lemma TrackCamera_poseQuality_eq:
  "poseQuality (snd (TrackCamera ext ts view t))
     = (let r = TrackCamera_loops ext ts view t;
            noValidPointsMax = CountValidDepths ext (depth view)
        in TrackCamera_poseQuality
             (TrackCamera_finalResidual (f_old (snd r)) (noValidPoints_old (snd r))
                noValidPointsMax (distThresh (fst r) ! 0))
             (TrackCamera_percentageInliers (noValidPoints_old (snd r)) noValidPointsMax)
             (TrackCamera_det_norm ext (iterationType (fst r)) (hessian_good (snd r))
                (noValidPoints_old (snd r)) noValidPointsMax))"
  by (simp add: TrackCamera_def TrackCamera_assess_def Let_def case_prod_beta)

lemma example_loops_iterationType:
  "iterationType (fst (TrackCamera_loops ext ts view (example_tracker (a # r)))) = a"
proof -
  have n: "viewHierarchy (example_tracker (a # r)) \<noteq> []"
    using example_tracker_fields(1) [of "a # r"] by auto
  have "view_iterationType (viewHierarchy (example_tracker (a # r)) ! 0)
      = map view_iterationType (viewHierarchy (example_tracker (a # r))) ! 0"
    using n by simp
  then have "view_iterationType (viewHierarchy (example_tracker (a # r)) ! 0) = a"
    by (simp add: example_tracker_fields)
  then show ?thesis
    using TrackCamera_loops_iterationType [OF n, of ext ts view] by simp
qed

lemma example_CountValidDepths:
  "CountValidDepths example_external (depth example_view) = 1"
  by (simp add: example_external_def example_view_def)

subsection \<open>The inner iteration\<close>

text \<open>
  C1. In an inner iteration of \<^verbatim>\<open>TrackCamera\<close>, let the evaluation return
  \<open>(noValidPoints_new, f_new, nabla_new, hessian_new)\<close>. If \<open>noValidPoints_new \<le> 0\<close> or
  \<open>f_new > f_old\<close>, the current pose is restored from the last known good pose (and the
  matrix the step is applied to is its inverse matrix), \<open>lambda\<close> is multiplied by 10, and
  the averaged gradient and Hessian, \<open>f_old\<close>, the number of accepted points and the last
  known good pose are what they were. Otherwise the last known good pose becomes the
  current pose, \<open>f_old\<close> becomes \<open>f_new\<close>, the averaged Hessian and gradient become
  \<open>hessian_new / noValidPoints_new\<close> and \<open>nabla_new / noValidPoints_new\<close>, entry by entry,
  \<open>lambda\<close> is divided by 10, and the current pose is not touched by the decision.
  \<open>s1\<close> is the state after the decision, \<open>s'\<close> the state after the whole iteration.
\<close>

theorem TrackCamera_iteration_accepts_or_reverts:
  assumes "ComputeGandH ext t (approxInvPose s) = (noValidPoints_new, f_new, nabla_new, hessian_new)"
  shows "(let s1 = TrackCamera_check ext (noValidPoints_new, f_new, nabla_new, hessian_new) s;
              s' = snd (TrackCamera_iteration ext t s)
          in if noValidPoints_new \<le> 0 \<or> f_new > f_old s then
               pose_d (trackingState s1) = lastKnownGoodPose s
               \<and> approxInvPose s1 = GetInvM ext (lastKnownGoodPose s)
               \<and> lambda s' = lambda s * 10
               \<and> hessian_good s' = hessian_good s
               \<and> nabla_good s' = nabla_good s
               \<and> f_old s' = f_old s
               \<and> noValidPoints_old s' = noValidPoints_old s
               \<and> lastKnownGoodPose s' = lastKnownGoodPose s
             else
               lastKnownGoodPose s' = pose_d (trackingState s)
               \<and> f_old s' = f_new
               \<and> noValidPoints_old s' = noValidPoints_new
               \<and> hessian_good s'
                   = map (\<lambda>i. hessian_new ! i / real_of_int noValidPoints_new) [0..<36]
               \<and> nabla_good s'
                   = map (\<lambda>i. nabla_new ! i / real_of_int noValidPoints_new) [0..<6]
               \<and> lambda s' = lambda s / 10
               \<and> pose_d (trackingState s1) = pose_d (trackingState s)
               \<and> approxInvPose s1 = approxInvPose s)"
  using assms
  by (simp add: TrackCamera_iteration_def TrackCamera_step_def TrackCamera_check_def Let_def)

theorem TrackCamera_iteration_accepts_or_reverts_witness:
  "lambda (snd (TrackCamera_iteration example_external (example_tracker [TRACKER_ITERATION_BOTH])
      example_locals)) = 1 / 10
   \<and> f_old (snd (TrackCamera_iteration example_external (example_tracker [TRACKER_ITERATION_BOTH])
      example_locals)) = 0
   \<and> lambda (snd (TrackCamera_iteration example_external (example_tracker [TRACKER_ITERATION_BOTH])
      (example_locals\<lparr>f_old := - 1\<rparr>))) = 10
   \<and> f_old (snd (TrackCamera_iteration example_external (example_tracker [TRACKER_ITERATION_BOTH])
      (example_locals\<lparr>f_old := - 1\<rparr>))) = - 1"
proof -
  let ?t = "example_tracker [TRACKER_ITERATION_BOTH]"
  let ?h = "map (\<lambda>i. if i mod 7 = 0 then 1 else 0) [0..<36] :: real list"
  have g: "ComputeGandH example_external ?t (approxInvPose s) = (1, 0, replicate 6 0, ?h)"
    for s :: "(Matrix4f, nat) TrackCamera_locals"
    by (simp add: example_external_def)
  have f: "f_old example_locals = 10 ^ 20" "lambda example_locals = 1"
    by (simp_all add: example_locals_def)
  from TrackCamera_iteration_accepts_or_reverts [OF g [of example_locals]]
    TrackCamera_iteration_accepts_or_reverts [OF g [of "example_locals\<lparr>f_old := - 1\<rparr>"]]
  show ?thesis
    by (simp add: Let_def f)
qed

subsection \<open>The quality of the pose\<close>

text \<open>
  C2. The loops of \<^verbatim>\<open>TrackCamera\<close> leave the quality field as it was; after all
  levels it is set from the final residual, the ratio of inliers and the normalised
  determinant: Good (1.0) if the residual is below 0.25 and the ratio above 0.7,
  Uncertain (0.5) if exactly one of the two holds, Poor (0.0) otherwise; a ratio below
  0.3 forces Poor; a determinant below \<open>e\<^sup>-\<^sup>3\<^sup>6\<close> lowers Good to Uncertain and changes
  neither Uncertain nor Poor.
\<close>

theorem TrackCamera_poseQuality_classification:
  "(case TrackCamera_loops ext ts view t of (t', s') \<Rightarrow>
      poseQuality (trackingState s') = poseQuality ts \<and>
      poseQuality (snd (TrackCamera ext ts view t)) =
        quality_value (spec_quality
          (TrackCamera_finalResidual (f_old s') (noValidPoints_old s')
             (CountValidDepths ext (depth view)) (distThresh t' ! 0))
          (TrackCamera_percentageInliers (noValidPoints_old s') (CountValidDepths ext (depth view)))
          (TrackCamera_det_norm ext (iterationType t') (hessian_good s') (noValidPoints_old s')
             (CountValidDepths ext (depth view)))))
   \<and> TrackCamera_poseQuality finalResidual percentageInliers det_norm
       = quality_value (spec_quality finalResidual percentageInliers det_norm)"
proof -
  obtain t' s' where l: "TrackCamera_loops ext ts view t = (t', s')"
    by (cases "TrackCamera_loops ext ts view t")
  have "poseQuality (trackingState s') = poseQuality ts"
    using loops_poseQuality [of ext ts view t] l by simp
  then show ?thesis
    using l by (simp add: TrackCamera_def TrackCamera_assess_def Let_def poseQuality_refines)
qed

theorem TrackCamera_poseQuality_classification_witness:
  "TrackCamera_poseQuality (1 / 10) (9 / 10) 1 = 1
   \<and> TrackCamera_poseQuality (1 / 10) (5 / 10) 1 = 1 / 2
   \<and> TrackCamera_poseQuality (4 / 10) (9 / 10) 1 = 1 / 2
   \<and> TrackCamera_poseQuality (4 / 10) (2 / 10) 1 = 0
   \<and> TrackCamera_poseQuality (1 / 10) (9 / 10) 0 = 1 / 2
   \<and> TrackCamera_poseQuality (1 / 10) (5 / 10) 0 = 1 / 2
   \<and> TrackCamera_poseQuality (4 / 10) (5 / 10) 0 = 0
   \<and> TrackCamera_poseQuality (1 / 10) (2 / 10) 1 = 0
   \<and> poseQuality (snd (TrackCamera example_external example_trackingState example_view
         (example_tracker [TRACKER_ITERATION_NONE, TRACKER_ITERATION_BOTH]))) = 1 / 2"
proof -
  let ?t = "example_tracker [TRACKER_ITERATION_NONE, TRACKER_ITERATION_BOTH]"
  have q: "TrackCamera_poseQuality r i d = quality_value (spec_quality r i d)" for r i d
    by (rule TrackCamera_poseQuality_classification
          [where ext = example_external and ts = example_trackingState and view = example_view
             and t = "example_tracker []" and finalResidual = r and percentageInliers = i
             and det_norm = d, THEN conjunct2])
  have "iterationType (fst (TrackCamera_loops example_external example_trackingState
      example_view ?t)) = TRACKER_ITERATION_NONE"
    by (rule example_loops_iterationType)
  with TrackCamera_poseQuality_classification
          [where ext = example_external and ts = example_trackingState and view = example_view
             and t = ?t, THEN conjunct1]
  have "poseQuality (snd (TrackCamera example_external example_trackingState example_view ?t))
      = 1 / 2"
    by (simp add: case_prod_beta example_loops_NONE_BOTH example_CountValidDepths
        TrackCamera_finalResidual_def TrackCamera_percentageInliers_def TrackCamera_det_norm_def
        spec_quality_def)
  then show ?thesis
    by (simp add: q spec_quality_def)
qed

subsection \<open>The pose update\<close>

text \<open>
  C3 (amended). \<^verbatim>\<open>ApplyDelta\<close> builds the step \<open>[rx, ry, rz, tx, ty, tz]\<close> from \<open>delta\<close>: for a
  rotation-only level it is \<open>delta[0..2]\<close> followed by three zeros, for a translation-only
  level three zeros followed by \<open>delta[0..2]\<close> (the reduced solve leaves its three unknowns
  in the first three entries), otherwise \<open>delta[0..5]\<close>. It returns \<open>Tinc \<cdot> para_old\<close> where
  \<open>Tinc\<close> has the rows \<open>(1, rz, -ry, tx)\<close>, \<open>(-rz, 1, rx, ty)\<close>, \<open>(ry, -rx, 1, tz)\<close>,
  \<open>(0, 0, 0, 1)\<close>.
\<close>

theorem ApplyDelta_incremental_transform:
  "ApplyDelta it para_old [d0, d1, d2, d3, d4, d5] =
     (let step = (case it of
                    TRACKER_ITERATION_ROTATION \<Rightarrow> [d0, d1, d2, 0, 0, 0]
                  | TRACKER_ITERATION_TRANSLATION \<Rightarrow> [0, 0, 0, d0, d1, d2]
                  | TRACKER_ITERATION_BOTH \<Rightarrow> [d0, d1, d2, d3, d4, d5]
                  | TRACKER_ITERATION_NONE \<Rightarrow> [d0, d1, d2, d3, d4, d5]);
          rx = step ! 0; ry = step ! 1; rz = step ! 2;
          tx = step ! 3; ty = step ! 4; tz = step ! 5
      in mat_mul (mat_of_rows [1, rz, - ry, tx] [- rz, 1, rx, ty] [ry, - rx, 1, tz] [0, 0, 0, 1])
           para_old)"
  by (cases it) (simp_all add: ApplyDelta_def ApplyDelta_Tinc_def mat_of_rows_def)

theorem ApplyDelta_incremental_transform_witness:
  "ApplyDelta TRACKER_ITERATION_BOTH mat_identity [1, 2, 3, 4, 5, 6]
     = mat_of_rows [1, 3, - 2, 4] [- 3, 1, 1, 5] [2, - 1, 1, 6] [0, 0, 0, 1]
   \<and> ApplyDelta TRACKER_ITERATION_TRANSLATION mat_identity [1, 2, 3, 4, 5, 6]
     = mat_of_rows [1, 0, 0, 1] [0, 1, 0, 2] [0, 0, 1, 3] [0, 0, 0, 1]"
  using ApplyDelta_incremental_transform [of TRACKER_ITERATION_BOTH mat_identity 1 2 3 4 5 6]
    ApplyDelta_incremental_transform [of TRACKER_ITERATION_TRANSLATION mat_identity 1 2 3 4 5 6]
  by (simp add: mat_mul_def mat_of_rows_def mat_identity_def)

text \<open>
  The sentence of the specification fails: a rotation step about the third axis gives the first row
  \<open>(1, 1, 0, 0)\<close> where the stated transform has \<open>(1, -1, 0, 0)\<close>, and a translation-only
  update applies \<open>delta[0..2]\<close> where masking would apply \<open>delta[3..5]\<close>.
\<close>

theorem ApplyDelta_spec_counterexample:
  "mat_row (ApplyDelta TRACKER_ITERATION_BOTH mat_identity [0, 0, 1, 0, 0, 0]) 0 = [1, 1, 0, 0]
   \<and> mat_row (spec_ApplyDelta TRACKER_ITERATION_BOTH mat_identity [0, 0, 1, 0, 0, 0]) 0
       = [1, - 1, 0, 0]
   \<and> translation_column
        (ApplyDelta TRACKER_ITERATION_TRANSLATION mat_identity [1, 2, 3, 4, 5, 6]) = [1, 2, 3]
   \<and> translation_column
        (spec_ApplyDelta TRACKER_ITERATION_TRANSLATION mat_identity [1, 2, 3, 4, 5, 6]) = [4, 5, 6]
   \<and> ApplyDelta TRACKER_ITERATION_BOTH mat_identity [0, 0, 1, 0, 0, 0]
       \<noteq> spec_ApplyDelta TRACKER_ITERATION_BOTH mat_identity [0, 0, 1, 0, 0, 0]"
  by (simp add: matrix_defs spec_ApplyDelta_def spec_Tinc_def)

text \<open>
  C8 (amended). With a rotation-only level no translation is added: the translation
  column of the composed pose is the incremental rotation block applied to the old
  translation column, so it is the old column when that is zero, and not in general.
  With a translation-only level and an old pose whose bottom row has zeros in its
  first three places, as every rigid transform has, the rotation block of the composed
  pose is the old rotation block.
\<close>

theorem ApplyDelta_restricted_levels:
  "translation_column (ApplyDelta TRACKER_ITERATION_ROTATION para_old delta)
     = block_apply [[1, delta ! 2, - (delta ! 1)],
                    [- (delta ! 2), 1, delta ! 0],
                    [delta ! 1, - (delta ! 0), 1]] (translation_column para_old)
   \<and> (translation_column para_old = [0, 0, 0] \<longrightarrow>
        translation_column (ApplyDelta TRACKER_ITERATION_ROTATION para_old delta) = [0, 0, 0])
   \<and> (m03 para_old = 0 \<and> m13 para_old = 0 \<and> m23 para_old = 0 \<longrightarrow>
        rotation_block (ApplyDelta TRACKER_ITERATION_TRANSLATION para_old delta)
          = rotation_block para_old)"
  by (simp add: matrix_defs)

theorem ApplyDelta_restricted_levels_witness:
  "translation_column (ApplyDelta TRACKER_ITERATION_ROTATION mat_identity [1, 2, 3, 4, 5, 6])
     = [0, 0, 0]
   \<and> rotation_block (ApplyDelta TRACKER_ITERATION_TRANSLATION mat_identity [1, 2, 3, 4, 5, 6])
     = rotation_block mat_identity"
proof -
  have "translation_column mat_identity = [0, 0, 0]"
    "m03 mat_identity = 0 \<and> m13 mat_identity = 0 \<and> m23 mat_identity = 0"
    by (simp_all add: mat_identity_def mat_of_rows_def translation_column_def)
  with ApplyDelta_restricted_levels [of mat_identity "[1, 2, 3, 4, 5, 6]"]
  show ?thesis by (simp add: block_apply_def)
qed

text \<open>
  The sentence of the specification fails for the rotation-only level: the pose with translation
  \<open>(1, 0, 0)\<close> and a rotation step about the third axis give the translation \<open>(1, -1, 0)\<close>.
\<close>

theorem ApplyDelta_rotation_moves_translation_counterexample:
  "translation_column (ApplyDelta TRACKER_ITERATION_ROTATION
      (mat_of_rows [1, 0, 0, 1] [0, 1, 0, 0] [0, 0, 1, 0] [0, 0, 0, 1]) [0, 0, 1, 0, 0, 0])
     = [1, - 1, 0]
   \<and> translation_column (mat_of_rows [1, 0, 0, 1] [0, 1, 0, 0] [0, 0, 1, 0] [0, 0, 0, 1])
     = [1, 0, 0]
   \<and> translation_column (ApplyDelta TRACKER_ITERATION_ROTATION
      (mat_of_rows [1, 0, 0, 1] [0, 1, 0, 0] [0, 0, 1, 0] [0, 0, 0, 1]) [0, 0, 1, 0, 0, 0])
     \<noteq> translation_column (mat_of_rows [1, 0, 0, 1] [0, 1, 0, 0] [0, 0, 1, 0] [0, 0, 0, 1])"
  by (simp add: matrix_defs)

subsection \<open>Convergence\<close>

text \<open>
  C7. \<^verbatim>\<open>HasConverged\<close> returns true if and only if the Euclidean norm of the six
  components of the step, divided by 6, is below the termination threshold; when the two
  are equal it returns false.
\<close>

theorem HasConverged_iff_norm_below_threshold:
  "(HasConverged thr step \<longleftrightarrow> sqrt (\<Sum>i<6. (step ! i) ^ 2) / 6 < thr)
   \<and> \<not> HasConverged (sqrt (\<Sum>i<6. (step ! i) ^ 2) / 6) step"
  by (simp add: HasConverged_def upt_6 sum_lessThan_6 power2_eq_square)

theorem HasConverged_iff_norm_below_threshold_witness:
  "HasConverged 1 [3, 0, 0, 0, 0, 0] \<and> \<not> HasConverged (1 / 2) [3, 0, 0, 0, 0, 0]
   \<and> \<not> HasConverged (1 / 2) [0, 0, 0, 0, 0, 6]"
  using HasConverged_iff_norm_below_threshold [of 1 "[3, 0, 0, 0, 0, 0]"]
    HasConverged_iff_norm_below_threshold [of "1 / 2" "[3, 0, 0, 0, 0, 0]"]
    HasConverged_iff_norm_below_threshold [of "1 / 2" "[0, 0, 0, 0, 0, 6]"]
  by (simp add: sum_lessThan_6)

subsection \<open>The schedules of the levels\<close>

text \<open>
  C5 (amended). In a call of \<^verbatim>\<open>SetupLevels\<close> in which an endpoint of the iteration counts
  is \<open>-1\<close>, the array of iteration counts is left as it is; in a call in which an endpoint
  of the distance thresholds is negative, the array of thresholds is left as it is. The
  other schedule may still be rewritten.
\<close>

theorem SetupLevels_unset_endpoints:
  "(numIterCoarse = - 1 \<or> numIterFine = - 1 \<longrightarrow>
      noIterationsPerLevel (SetupLevels numIterCoarse numIterFine distThreshCoarse distThreshFine t)
        = noIterationsPerLevel t)
   \<and> (distThreshCoarse < 0 \<or> distThreshFine < 0 \<longrightarrow>
      distThresh (SetupLevels numIterCoarse numIterFine distThreshCoarse distThreshFine t)
        = distThresh t)"
  by (auto simp: SetupLevels_noIterationsPerLevel SetupLevels_distThresh)

theorem SetupLevels_unset_endpoints_witness:
  "noIterationsPerLevel (SetupLevels (- 1) 5 (1 / 2) (1 / 4)
      (example_tracker [TRACKER_ITERATION_BOTH, TRACKER_ITERATION_ROTATION])) = [2, 4]
   \<and> distThresh (SetupLevels (- 1) 5 (1 / 2) (1 / 4)
      (example_tracker [TRACKER_ITERATION_BOTH, TRACKER_ITERATION_ROTATION])) = [1 / 4, 1 / 2]
   \<and> noIterationsPerLevel (SetupLevels 3 3 (- 1) 0
      (example_tracker [TRACKER_ITERATION_BOTH, TRACKER_ITERATION_ROTATION])) = [3, 3]
   \<and> distThresh (SetupLevels 3 3 (- 1) 0
      (example_tracker [TRACKER_ITERATION_BOTH, TRACKER_ITERATION_ROTATION])) = [2 / 1000, 1 / 100]"
proof -
  let ?t = "example_tracker [TRACKER_ITERATION_BOTH, TRACKER_ITERATION_ROTATION]"
  have "noIterationsPerLevel (SetupLevels (- 1) 5 (1 / 2) (1 / 4) ?t) = noIterationsPerLevel ?t"
    using SetupLevels_unset_endpoints [of "- 1" 5 "1 / 2" "1 / 4" ?t] by simp
  moreover have "distThresh (SetupLevels 3 3 (- 1) 0 ?t) = distThresh ?t"
    using SetupLevels_unset_endpoints [of 3 3 "- 1" 0 ?t] by simp
  ultimately show ?thesis
    by (simp add: example_tracker_2 SetupLevels_noIterationsPerLevel SetupLevels_distThresh
        example_tracker_fields numeral_2_eq_2)
qed

text \<open>
  The sentence of the specification fails for the iteration counts: the test is for \<open>-1\<close>, so the negative
  endpoints \<open>-2, -2\<close> overwrite the counts \<open>[2, 4]\<close> of a tracker of two levels.
\<close>

theorem SetupLevels_negative_iterations_counterexample:
  "noIterationsPerLevel (SetupLevels (- 2) (- 2) (- 1) (- 1)
      (example_tracker [TRACKER_ITERATION_BOTH, TRACKER_ITERATION_ROTATION])) = [- 2, - 2]
   \<and> noIterationsPerLevel (example_tracker [TRACKER_ITERATION_BOTH, TRACKER_ITERATION_ROTATION])
      = [2, 4]
   \<and> noIterationsPerLevel (SetupLevels (- 2) (- 2) (- 1) (- 1)
      (example_tracker [TRACKER_ITERATION_BOTH, TRACKER_ITERATION_ROTATION]))
      \<noteq> noIterationsPerLevel
          (example_tracker [TRACKER_ITERATION_BOTH, TRACKER_ITERATION_ROTATION])"
  by (simp add: example_tracker_2 SetupLevels_noIterationsPerLevel example_tracker_fields
      numeral_2_eq_2 C_round_def)




text \<open>
  C10 (amended). After construction with \<open>L\<close> levels the schedules are those of
  \<^verbatim>\<open>SetupLevels(2 * L, 2, 0.01, 0.002)\<close>: level \<open>k\<close> gets \<open>2 * (k + 1)\<close> iterations, so
  the coarsest level gets \<open>2 * L\<close> and the finest 2 (the step is 2 and every value of
  the loop is an even integer, exact in binary32, for fewer than \<open>2\<^sup>2\<^sup>3\<close> levels; with
  \<open>2\<^sup>2\<^sup>4 + 1\<close> levels the coarse endpoint is rounded, see
  \<open>ITMDepthTracker_new_counts_limit\<close>), and the coarsest level gets the threshold 0.01. With at least two levels the finest level gets the threshold 0.002
  and the levels between are linearly interpolated. With one level that level gets the
  threshold 0.01.
\<close>

theorem ITMDepthTracker_new_schedules:
  assumes len: "length new_int = L" "length new_float = L"
  shows "(let t0 = raw\<lparr>viewHierarchy := new_viewHierarchy trackingRegime L blank_img,
                        sceneHierarchy := new_sceneHierarchy trackingRegime L blank_pts,
                        noIterationsPerLevel := new_int,
                        distThresh := new_float\<rparr>;
              t = ITMDepthTracker_new trackingRegime L thr blank_img blank_pts new_int new_float raw;
              its = noIterationsPerLevel t; ths = distThresh t
          in its = noIterationsPerLevel (SetupLevels (2 * int L) 2 (1 / 100) (2 / 1000) t0)
             \<and> ths = distThresh (SetupLevels (2 * int L) 2 (1 / 100) (2 / 1000) t0)
             \<and> length its = L \<and> length ths = L
             \<and> (L < 2 ^ 23 \<longrightarrow> (\<forall>k < L. its ! k = 2 * (int k + 1)))
             \<and> (1 \<le> L \<and> L < 2 ^ 23 \<longrightarrow> its ! (L - 1) = 2 * int L \<and> its ! 0 = 2)
             \<and> (1 \<le> L \<longrightarrow> ths ! (L - 1) = 1 / 100)
             \<and> (2 \<le> L \<longrightarrow> ths ! 0 = 2 / 1000
                   \<and> (\<forall>k < L. ths ! k = 2 / 1000 + real k * ((1 / 100 - 2 / 1000) / real (L - 1))))
             \<and> (L = 1 \<longrightarrow> ths ! 0 = 1 / 100))"
proof -
  define t0 where "t0 = raw\<lparr>viewHierarchy := new_viewHierarchy trackingRegime L blank_img,
                        sceneHierarchy := new_sceneHierarchy trackingRegime L blank_pts,
                        noIterationsPerLevel := new_int,
                        distThresh := new_float\<rparr>"
  define t1 where "t1 = SetupLevels (2 * int L) 2 (1 / 100) (2 / 1000) t0"
  define t where "t = ITMDepthTracker_new trackingRegime L thr blank_img blank_pts new_int new_float raw"
  have t: "noIterationsPerLevel t = noIterationsPerLevel t1" "distThresh t = distThresh t1"
    by (simp_all add: t_def t1_def t0_def ITMDepthTracker_new_def Let_def mult.commute)
  have l0: "length (viewHierarchy t0) = L" "length (noIterationsPerLevel t0) = L"
      "length (distThresh t0) = L"
    using len by (simp_all add: t0_def new_viewHierarchy_def)
  have lens: "length (noIterationsPerLevel t1) = L" "length (distThresh t1) = L"
    by (simp_all add: t1_def SetupLevels_lengths l0)
  have its: "noIterationsPerLevel t1 ! k = 2 * (int k + 1)" if "L < 2 ^ 23" "k < L" for k
    unfolding t1_def
    using SetupLevels_even_counts [of t0 k "1 / 100" "2 / 1000"] that l0 by simp
  have ths: "distThresh t1 ! k = 1 / 100 - real (L - 1 - k) * ((1 / 100 - 2 / 1000) / real_of_int (int L - 1))"
    if k: "k < L" for k
    unfolding t1_def
    using SetupLevels_distThresh_nth [of "1 / 100" "2 / 1000" t0 k "2 * int L" 2] l0 k
    by simp
  have top: "noIterationsPerLevel t1 ! (L - 1) = 2 * int L \<and> noIterationsPerLevel t1 ! 0 = 2"
    if "1 \<le> L" "L < 2 ^ 23"
    using that its [of "L - 1"] its [of 0] by simp
  have top_t: "distThresh t1 ! (L - 1) = 1 / 100" if "1 \<le> L"
    using that ths [of "L - 1"] by simp
  have fine: "distThresh t1 ! k = 2 / 1000 + real k * ((1 / 100 - 2 / 1000) / real (L - 1))"
    if "2 \<le> L" "k < L" for k
  proof -
    have c: "real_of_int (int L - 1) = real (L - 1)" using that by simp
    have p: "real (L - 1) \<noteq> 0" using that by simp
    have "real (L - 1 - k) = real (L - 1) - real k" using that by simp
    then show ?thesis
      using ths [OF that(2)] p unfolding c by (simp add: field_simps)
  qed
  have fine0: "distThresh t1 ! 0 = 2 / 1000" if "2 \<le> L"
    using fine [OF that, of 0] that by simp
  have one: "distThresh t1 ! 0 = 1 / 100" if "L = 1"
    using ths [of 0] that by simp
  show ?thesis
    unfolding Let_def t0_def [symmetric] t_def [symmetric] t1_def [symmetric] t
    using lens its top top_t fine fine0 one by blast
qed

theorem ITMDepthTracker_new_schedules_witness:
  "noIterationsPerLevel (ITMDepthTracker_new
      [TRACKER_ITERATION_BOTH, TRACKER_ITERATION_ROTATION, TRACKER_ITERATION_ROTATION] 3
      (1 / 1000) (0::nat) (0::nat) [7, 7, 7] [9, 9, 9] example_raw) = [2, 4, 6]
   \<and> distThresh (ITMDepthTracker_new
      [TRACKER_ITERATION_BOTH, TRACKER_ITERATION_ROTATION, TRACKER_ITERATION_ROTATION] 3
      (1 / 1000) (0::nat) (0::nat) [7, 7, 7] [9, 9, 9] example_raw) = [2 / 1000, 6 / 1000, 1 / 100]"
proof -
  let ?t = "ITMDepthTracker_new
      [TRACKER_ITERATION_BOTH, TRACKER_ITERATION_ROTATION, TRACKER_ITERATION_ROTATION] 3
      (1 / 1000) (0::nat) (0::nat) [7, 7, 7] [9, 9, 9] example_raw"
  have l: "length [7, 7, 7 :: int] = 3" "length [9, 9, 9 :: real] = 3"
    by simp_all
  have k: "k < 3 \<Longrightarrow> k = 0 \<or> k = 1 \<or> k = 2" for k :: nat
    by arith
  note w = ITMDepthTracker_new_schedules [OF l,
      where raw = example_raw and blank_img = "0::nat" and blank_pts = "0::nat"
        and thr = "1 / 1000"
        and trackingRegime = "[TRACKER_ITERATION_BOTH, TRACKER_ITERATION_ROTATION,
          TRACKER_ITERATION_ROTATION]", unfolded Let_def]
  from w have len: "length (noIterationsPerLevel ?t) = 3" "length (distThresh ?t) = 3"
    by blast+
  have "(3::nat) < 2 ^ 23" by simp
  note its = w [THEN conjunct2, THEN conjunct2, THEN conjunct2, THEN conjunct2, THEN conjunct1,
      THEN mp, OF this, rule_format]
  have "2 \<le> (3::nat)" by simp
  note ths = w [THEN conjunct2, THEN conjunct2, THEN conjunct2, THEN conjunct2, THEN conjunct2,
      THEN conjunct2, THEN conjunct2, THEN conjunct1, THEN mp, OF this, THEN conjunct2,
      rule_format]
  have "noIterationsPerLevel ?t = [2, 4, 6]"
  proof (rule nth_equalityI)
    show "length (noIterationsPerLevel ?t) = length [2, 4, 6 :: int]"
      using len by simp
  next
    fix i assume "i < length (noIterationsPerLevel ?t)"
    then have "i < 3" using len by simp
    then show "noIterationsPerLevel ?t ! i = [2, 4, 6] ! i"
      using its [of i] k [of i] by auto
  qed
  moreover have "distThresh ?t = [2 / 1000, 6 / 1000, 1 / 100]"
  proof (rule nth_equalityI)
    show "length (distThresh ?t) = length [2 / 1000, 6 / 1000, 1 / 100 :: real]"
      using len by simp
  next
    fix i assume "i < length (distThresh ?t)"
    then have "i < 3" using len by simp
    then show "distThresh ?t ! i = [2 / 1000, 6 / 1000, 1 / 100] ! i"
      using ths [of i] k [of i] by auto
  qed
  ultimately show ?thesis by simp
qed

text \<open>
  The sentence of the specification fails for one level: the only level is the coarsest and the
  finest, and its threshold is 0.01. (The loop writes the coarse value before it
  subtracts the step, so the value does not depend on the quotient by \<open>L - 1 = 0\<close>.)
\<close>

theorem ITMDepthTracker_new_single_level_counterexample:
  "distThresh (ITMDepthTracker_new [TRACKER_ITERATION_BOTH] 1 (1 / 1000) (0::nat) (0::nat)
      [0] [0] example_raw) = [1 / 100]
   \<and> noIterationsPerLevel (ITMDepthTracker_new [TRACKER_ITERATION_BOTH] 1 (1 / 1000) (0::nat)
      (0::nat) [0] [0] example_raw) = [2]
   \<and> distThresh (ITMDepthTracker_new [TRACKER_ITERATION_BOTH] 1 (1 / 1000) (0::nat) (0::nat)
      [0] [0] example_raw) ! 0 \<noteq> 2 / 1000"
  using example_tracker_1 [of TRACKER_ITERATION_BOTH]
  by (simp add: example_tracker_def)

subsection \<open>The scene level of the evaluation\<close>

text \<open>
  C9. \<^verbatim>\<open>SetEvaluationParams\<close> binds scene level 0 whatever the level is, and leaves the
  scene hierarchy alone. \<^verbatim>\<open>PrepareForEvaluation\<close> leaves the points and the normals of
  every scene level as they are and sets the intrinsics of each scene level above 0 to
  half those of the level below. Level 0 of the scene holds the points and normals of the
  point cloud of the tracking state. In a call of \<^verbatim>\<open>TrackCamera\<close> the evaluation is only
  ever called with scene level 0 bound: an evaluation function that agrees with
  \<^verbatim>\<open>ComputeGandH\<close> on those trackers gives the same result.
\<close>

theorem TrackCamera_evaluates_scene_level_0:
  "sceneHierarchyLevel (SetEvaluationParams l t) = 0
   \<and> sceneHierarchy (SetEvaluationParams l t) = sceneHierarchy t
   \<and> map scene_pointsMap (sceneHierarchy (PrepareForEvaluation ext t))
       = map scene_pointsMap (sceneHierarchy t)
   \<and> map scene_normalsMap (sceneHierarchy (PrepareForEvaluation ext t))
       = map scene_normalsMap (sceneHierarchy t)
   \<and> (\<forall>i. 0 < i \<and> i < length (viewHierarchy t) \<and> i < length (sceneHierarchy t) \<longrightarrow>
         scene_intrinsics (sceneHierarchy (PrepareForEvaluation ext t) ! i)
           = vec_scale (scene_intrinsics (sceneHierarchy (PrepareForEvaluation ext t) ! (i - 1)))
               (1 / 2))
   \<and> (sceneHierarchy t \<noteq> [] \<longrightarrow>
         scene_pointsMap (sceneHierarchy (fst (TrackCamera_init ext ts view t)) ! 0)
           = pointCloud_locations ts
         \<and> scene_normalsMap (sceneHierarchy (fst (TrackCamera_init ext ts view t)) ! 0)
           = pointCloud_colours ts)
   \<and> ((\<forall>t' M. sceneHierarchyLevel t' = 0 \<longrightarrow> G t' M = ComputeGandH ext t' M) \<longrightarrow>
         TrackCamera (ext\<lparr>ComputeGandH := G\<rparr>) ts view t = TrackCamera ext ts view t)"
proof -
  have "sceneHierarchyLevel (SetEvaluationParams l t) = 0"
    by (simp add: SetEvaluationParams_def)
  moreover have "TrackCamera (ext\<lparr>ComputeGandH := G\<rparr>) ts view t = TrackCamera ext ts view t"
    if "\<forall>t' M. sceneHierarchyLevel t' = 0 \<longrightarrow> G t' M = ComputeGandH ext t' M"
    using that by (intro TrackCamera_level_0_only) simp
  ultimately show ?thesis
    using PrepareForEvaluation_intrinsics [of _ t ext]
      TrackCamera_init_scene_level_0 [of t ext ts view]
    by (simp add: SetEvaluationParams_frame PrepareForEvaluation_frame)
qed

theorem TrackCamera_evaluates_scene_level_0_witness:
  "TrackCamera
      (example_external\<lparr>ComputeGandH :=
         (\<lambda>t M. if sceneHierarchyLevel t = 0 then ComputeGandH example_external t M
                 else (0, 0, [], []))\<rparr>)
      example_trackingState example_view
      (example_tracker [TRACKER_ITERATION_BOTH, TRACKER_ITERATION_ROTATION])
     = TrackCamera example_external example_trackingState example_view
         (example_tracker [TRACKER_ITERATION_BOTH, TRACKER_ITERATION_ROTATION])
   \<and> scene_pointsMap (sceneHierarchy (fst (TrackCamera_init example_external
         example_trackingState example_view
         (example_tracker [TRACKER_ITERATION_BOTH, TRACKER_ITERATION_ROTATION]))) ! 0) = 7"
proof -
  let ?t = "example_tracker [TRACKER_ITERATION_BOTH, TRACKER_ITERATION_ROTATION]"
  let ?G = "\<lambda>(t :: (nat, nat) ITMDepthTracker) (M :: Matrix4f).
              if sceneHierarchyLevel t = 0 then ComputeGandH example_external t M
              else (0, 0, [], [])"
  have g: "\<forall>t' M. sceneHierarchyLevel t' = 0 \<longrightarrow> ?G t' M = ComputeGandH example_external t' M"
    by simp
  have n: "sceneHierarchy ?t \<noteq> []"
    using example_tracker_fields(4) [of "[TRACKER_ITERATION_BOTH, TRACKER_ITERATION_ROTATION]"]
    by auto
  note w = TrackCamera_evaluates_scene_level_0
      [where t = ?t and ext = example_external and ts = example_trackingState
         and view = example_view and G = ?G]
  from w g have "TrackCamera (example_external\<lparr>ComputeGandH := ?G\<rparr>) example_trackingState
      example_view ?t = TrackCamera example_external example_trackingState example_view ?t"
    by blast
  moreover from w n have "scene_pointsMap (sceneHierarchy (fst (TrackCamera_init example_external
         example_trackingState example_view ?t)) ! 0) = pointCloud_locations example_trackingState"
    by blast
  ultimately show ?thesis
    by (simp add: example_trackingState_def)
qed

subsection \<open>The determinant of the quality assessment\<close>

text \<open>
  C4 (amended). After the loop over the levels the field \<open>iterationType\<close> is the iteration
  type of level 0, the last level the loop visits, whether that level was processed or
  skipped as None. The determinant used by the quality assessment is computed if and
  only if that type is Both: then the averaged Hessian is scaled entry by entry by
  \<open>noValidPoints_old / noValidPointsMax\<close> and \<open>det_norm\<close> is its Cholesky determinant;
  otherwise \<open>det_norm = 0\<close>.
\<close>

theorem TrackCamera_det_norm_of_level_0:
  assumes "viewHierarchy t \<noteq> []"
  shows "iterationType (fst (TrackCamera_loops ext ts view t))
           = view_iterationType (viewHierarchy t ! 0)
    \<and> TrackCamera_det_norm ext (iterationType (fst (TrackCamera_loops ext ts view t)))
          hessian_good' noValidPoints_old' noValidPointsMax
        = (if view_iterationType (viewHierarchy t ! 0) = TRACKER_ITERATION_BOTH
           then Cholesky_Determinant ext
                  (map (\<lambda>i. hessian_good' ! i
                     * (real_of_int noValidPoints_old' / real_of_int noValidPointsMax)) [0..<36]) 6
           else 0)
    \<and> poseQuality (snd (TrackCamera ext ts view t))
        = (let r = TrackCamera_loops ext ts view t;
               noValidPointsMax = CountValidDepths ext (depth view)
           in TrackCamera_poseQuality
                (TrackCamera_finalResidual (f_old (snd r)) (noValidPoints_old (snd r))
                   noValidPointsMax (distThresh (fst r) ! 0))
                (TrackCamera_percentageInliers (noValidPoints_old (snd r)) noValidPointsMax)
                (TrackCamera_det_norm ext (iterationType (fst r)) (hessian_good (snd r))
                   (noValidPoints_old (snd r)) noValidPointsMax))"
proof (intro conjI)
  show it: "iterationType (fst (TrackCamera_loops ext ts view t))
      = view_iterationType (viewHierarchy t ! 0)"
    by (rule TrackCamera_loops_iterationType [OF assms])
  show "TrackCamera_det_norm ext (iterationType (fst (TrackCamera_loops ext ts view t)))
          hessian_good' noValidPoints_old' noValidPointsMax
        = (if view_iterationType (viewHierarchy t ! 0) = TRACKER_ITERATION_BOTH
           then Cholesky_Determinant ext
                  (map (\<lambda>i. hessian_good' ! i
                     * (real_of_int noValidPoints_old' / real_of_int noValidPointsMax)) [0..<36]) 6
           else 0)"
    unfolding it by (simp add: TrackCamera_det_norm_def)
  show "poseQuality (snd (TrackCamera ext ts view t))
        = (let r = TrackCamera_loops ext ts view t;
               noValidPointsMax = CountValidDepths ext (depth view)
           in TrackCamera_poseQuality
                (TrackCamera_finalResidual (f_old (snd r)) (noValidPoints_old (snd r))
                   noValidPointsMax (distThresh (fst r) ! 0))
                (TrackCamera_percentageInliers (noValidPoints_old (snd r)) noValidPointsMax)
                (TrackCamera_det_norm ext (iterationType (fst r)) (hessian_good (snd r))
                   (noValidPoints_old (snd r)) noValidPointsMax))"
    by (simp add: TrackCamera_def TrackCamera_assess_def Let_def case_prod_beta)
qed

theorem TrackCamera_det_norm_of_level_0_witness:
  "TrackCamera_det_norm example_external
      (iterationType (fst (TrackCamera_loops example_external example_trackingState example_view
         (example_tracker [TRACKER_ITERATION_BOTH]))))
      (hessian_good (snd (TrackCamera_loops example_external example_trackingState example_view
         (example_tracker [TRACKER_ITERATION_BOTH]))))
      (noValidPoints_old (snd (TrackCamera_loops example_external example_trackingState
         example_view (example_tracker [TRACKER_ITERATION_BOTH]))))
      (CountValidDepths example_external (depth example_view)) = 1
   \<and> poseQuality (snd (TrackCamera example_external example_trackingState example_view
         (example_tracker [TRACKER_ITERATION_BOTH]))) = 1"
proof -
  let ?t = "example_tracker [TRACKER_ITERATION_BOTH]"
  let ?r = "TrackCamera_loops example_external example_trackingState example_view ?t"
  have n: "viewHierarchy ?t \<noteq> []"
    using example_tracker_fields(1) [of "[TRACKER_ITERATION_BOTH]"] by auto
  have "view_iterationType (viewHierarchy ?t ! 0) = map view_iterationType (viewHierarchy ?t) ! 0"
    using n by simp
  then have v: "view_iterationType (viewHierarchy ?t ! 0) = TRACKER_ITERATION_BOTH"
    by (simp add: example_tracker_fields)
  note w = TrackCamera_det_norm_of_level_0 [OF n,
      where ext = example_external and ts = example_trackingState and view = example_view
        and hessian_good' = "hessian_good (snd ?r)"
        and noValidPoints_old' = "noValidPoints_old (snd ?r)"
        and noValidPointsMax = "CountValidDepths example_external (depth example_view)"]
  have d: "TrackCamera_det_norm example_external (iterationType (fst ?r)) (hessian_good (snd ?r))
      (noValidPoints_old (snd ?r)) (CountValidDepths example_external (depth example_view)) = 1"
    using w [THEN conjunct2, THEN conjunct1] v
    by (simp add: example_loops_BOTH example_CountValidDepths example_determinant)
  have "poseQuality (snd (TrackCamera example_external example_trackingState example_view ?t)) =
      TrackCamera_poseQuality
        (TrackCamera_finalResidual (f_old (snd ?r)) (noValidPoints_old (snd ?r))
           (CountValidDepths example_external (depth example_view)) (distThresh (fst ?r) ! 0))
        (TrackCamera_percentageInliers (noValidPoints_old (snd ?r))
           (CountValidDepths example_external (depth example_view)))
        (TrackCamera_det_norm example_external (iterationType (fst ?r)) (hessian_good (snd ?r))
           (noValidPoints_old (snd ?r)) (CountValidDepths example_external (depth example_view)))"
    using w [THEN conjunct2, THEN conjunct2] by (simp add: Let_def)
  also have "\<dots> = 1"
    unfolding d
    by (simp add: example_loops_BOTH example_CountValidDepths TrackCamera_finalResidual_def
        TrackCamera_percentageInliers_def TrackCamera_poseQuality_def thresholdResidual_def
        thresholdInliers_def thresholdDet_def)
  finally show ?thesis
    using d by simp
qed

text \<open>
  The sentence of the specification fails when level 0 is skipped: with the regime None at level 0 and
  Both at level 1, the last processed level is level 1, of type Both, and the stated
  determinant is that of the accepted Hessian, 1 in the instance; the code tests the type
  of level 0 and takes \<open>det_norm = 0\<close>.
\<close>

theorem TrackCamera_det_norm_skipped_level_0_counterexample:
  "last_processed_iterationType [TRACKER_ITERATION_NONE, TRACKER_ITERATION_BOTH]
      = Some TRACKER_ITERATION_BOTH
   \<and> iterationType (fst (TrackCamera_loops example_external example_trackingState example_view
         (example_tracker [TRACKER_ITERATION_NONE, TRACKER_ITERATION_BOTH])))
      = TRACKER_ITERATION_NONE
   \<and> hessian_good (snd (TrackCamera_loops example_external example_trackingState example_view
         (example_tracker [TRACKER_ITERATION_NONE, TRACKER_ITERATION_BOTH]))) = identity_36
   \<and> noValidPoints_old (snd (TrackCamera_loops example_external example_trackingState
         example_view (example_tracker [TRACKER_ITERATION_NONE, TRACKER_ITERATION_BOTH]))) = 1
   \<and> CountValidDepths example_external (depth example_view) = 1
   \<and> TrackCamera_det_norm example_external
      (iterationType (fst (TrackCamera_loops example_external example_trackingState example_view
         (example_tracker [TRACKER_ITERATION_NONE, TRACKER_ITERATION_BOTH]))))
      (hessian_good (snd (TrackCamera_loops example_external example_trackingState example_view
         (example_tracker [TRACKER_ITERATION_NONE, TRACKER_ITERATION_BOTH]))))
      (noValidPoints_old (snd (TrackCamera_loops example_external example_trackingState example_view
         (example_tracker [TRACKER_ITERATION_NONE, TRACKER_ITERATION_BOTH]))))
      (CountValidDepths example_external (depth example_view)) = 0
   \<and> spec_detNorm example_external [TRACKER_ITERATION_NONE, TRACKER_ITERATION_BOTH]
      (hessian_good (snd (TrackCamera_loops example_external example_trackingState example_view
         (example_tracker [TRACKER_ITERATION_NONE, TRACKER_ITERATION_BOTH]))))
      (noValidPoints_old (snd (TrackCamera_loops example_external example_trackingState example_view
         (example_tracker [TRACKER_ITERATION_NONE, TRACKER_ITERATION_BOTH]))))
      (CountValidDepths example_external (depth example_view)) = 1"
proof -
  let ?t = "example_tracker [TRACKER_ITERATION_NONE, TRACKER_ITERATION_BOTH]"
  have "iterationType (fst (TrackCamera_loops example_external example_trackingState
      example_view ?t)) = TRACKER_ITERATION_NONE"
    by (rule example_loops_iterationType)
  then show ?thesis
    by (simp add: example_loops_NONE_BOTH TrackCamera_det_norm_def spec_detNorm_def
        last_processed_iterationType_def example_determinant example_CountValidDepths)
qed

end
